theory Spec2Isabelle
  imports Main "HOL-Library.Word" "HOL-Library.AList"
begin

section \<open>Data model of exchange/bitswap/wantmanager.go\<close>

text \<open>
  Content ids (\<open>*cid.Cid\<close>, compared through their key string) and peer ids
  (\<open>peer.ID\<close>) are opaque comparable identifiers; sender handles
  (\<open>bsnet.MessageSender\<close>) are named by a number. Go's \<open>int\<close> is taken at its
  64-bit width for priorities, where \<open>kMaxPriority - i\<close> is computed; reference
  counts only ever move by one and are kept as mathematical integers.
\<close>

type_synonym cid = nat
type_synonym peer_id = nat
type_synonym sender_id = nat
type_synonym priority = "64 word"
type_synonym block = "8 word list"

text \<open>\<open>wantlist.Entry\<close>: the fields the manager reads and writes.\<close>

record wl_Entry =
  Cid :: cid
  Priority :: priority
  RefCnt :: int

text \<open>\<open>bsmsg.Entry\<close>: a want-list entry with the cancel flag.\<close>

record bsmsg_Entry =
  Cancel :: bool
  Entry :: wl_Entry

text \<open>\<open>wantSet\<close>: the batch sent over the \<open>incoming\<close> channel.\<close>

record wantSet =
  entries :: "bsmsg_Entry list"
  targets :: "peer_id list"

subsection \<open>The want list (package wantlist)\<close>

text \<open>
  A Go map from the id's key string to the entry. It is kept as an association list
  with distinct keys; the list order stands for the order in which \<open>Entries\<close> happens
  to enumerate the map.
\<close>

type_synonym wantlist = "(cid \<times> wl_Entry) list"

text \<open>
  Modelled from the spec: the methods of \<open>wantlist.Wantlist\<close> and
  \<open>wantlist.ThreadSafe\<close> (package wantlist is not part of the source at hand).
  \<open>Add\<close> merges a want: it increments the reference count of an id already present
  and creates the entry otherwise, and returns whether the id went from absent to active.
  The priority of an id already present is left as it is.
\<close>

definition wl_Add :: "cid \<Rightarrow> priority \<Rightarrow> wantlist \<Rightarrow> wantlist \<times> bool" where
  "wl_Add c pr w =
     (case map_of w c of
        Some e \<Rightarrow> (AList.update c (e\<lparr>RefCnt := RefCnt e + 1\<rparr>) w, False)
      | None \<Rightarrow> (AList.update c \<lparr>Cid = c, Priority = pr, RefCnt = 1\<rparr> w, True))"

text \<open>
  Modelled from the spec: \<open>AddEntry\<close> is \<open>Add\<close> for a ready-made entry, which is
  stored as it is when the id is absent.
\<close>

definition wl_AddEntry :: "wl_Entry \<Rightarrow> wantlist \<Rightarrow> wantlist \<times> bool" where
  "wl_AddEntry e w =
     (case map_of w (Cid e) of
        Some ex \<Rightarrow> (AList.update (Cid e) (ex\<lparr>RefCnt := RefCnt ex + 1\<rparr>) w, False)
      | None \<Rightarrow> (AList.update (Cid e) e w, True))"

text \<open>
  Modelled from the spec: \<open>Remove\<close> decrements the reference count and deletes the
  entry when the count is used up; it returns whether the id became fully inactive. An
  absent id is left alone.
\<close>

definition wl_Remove :: "cid \<Rightarrow> wantlist \<Rightarrow> wantlist \<times> bool" where
  "wl_Remove c w =
     (case map_of w c of
        None \<Rightarrow> (w, False)
      | Some e \<Rightarrow>
          (if RefCnt e - 1 \<le> 0 then (AList.delete c w, True)
           else (AList.update c (e\<lparr>RefCnt := RefCnt e - 1\<rparr>) w, False)))"

text \<open>Modelled from the spec: \<open>Entries\<close> is a point-in-time snapshot sequence.\<close>

definition wl_Entries :: "wantlist \<Rightarrow> wl_Entry list" where
  "wl_Entries w = map snd w"

subsection \<open>Messages (package message)\<close>

text \<open>
  Modelled from the spec: \<open>bsmsg.BitSwapMessage\<close> (package message is not part of
  the source at hand). A message is built full or incremental, holds at most one
  want-list item per id, an add with its priority or a cancel, and the blocks added to
  it; it is empty when it holds neither.
\<close>

record message =
  full :: bool
  msg_wantlist :: "(cid \<times> priority \<times> bool) list"
  msg_blocks :: "block list"

text \<open>Modelled from the spec: \<open>bsmsg.New(full)\<close>, a message with nothing in it.\<close>

definition msg_New :: "bool \<Rightarrow> message" where
  "msg_New f = \<lparr>full = f, msg_wantlist = [], msg_blocks = []\<rparr>"

text \<open>
  Modelled from the spec: \<open>AddEntry(id, priority)\<close> appends an add for the id with
  its priority, or updates the item the message holds for that id.
\<close>

definition msg_AddEntry :: "cid \<Rightarrow> priority \<Rightarrow> message \<Rightarrow> message" where
  "msg_AddEntry c pr m = m\<lparr>msg_wantlist := AList.update c (pr, False) (msg_wantlist m)\<rparr>"

text \<open>
  Modelled from the spec: \<open>Cancel(id)\<close> appends a cancel for the id, in place of an
  item the message holds for that id.
\<close>

definition msg_Cancel :: "cid \<Rightarrow> message \<Rightarrow> message" where
  "msg_Cancel c m = m\<lparr>msg_wantlist := AList.update c (0, True) (msg_wantlist m)\<rparr>"

text \<open>Modelled from the spec: \<open>AddBlock(block)\<close> adds the block to the message.\<close>

definition msg_AddBlock :: "block \<Rightarrow> message \<Rightarrow> message" where
  "msg_AddBlock b m = m\<lparr>msg_blocks := msg_blocks m @ [b]\<rparr>"

text \<open>Modelled from the spec: \<open>Empty()\<close>, no want-list item and no block.\<close>

definition msg_Empty :: "message \<Rightarrow> bool" where
  "msg_Empty m = (msg_wantlist m = [] \<and> msg_blocks m = [])"

section \<open>Building a batch: addEntries\<close>

text \<open>
  The loop \<open>for i, k := range ks\<close> of \<open>addEntries\<close>. The constant
  \<open>kMaxPriority\<close> is declared elsewhere in the package and is a parameter here.
\<close>

definition mk_entry :: "priority \<Rightarrow> bool \<Rightarrow> nat \<times> cid \<Rightarrow> bsmsg_Entry" where
  "mk_entry kMaxPriority cancel ik =
     \<lparr>Cancel = cancel,
      Entry = \<lparr>Cid = snd ik, Priority = kMaxPriority - of_nat (fst ik), RefCnt = 1\<rparr>\<rparr>"

definition addEntries_entries :: "priority \<Rightarrow> cid list \<Rightarrow> bool \<Rightarrow> bsmsg_Entry list" where
  "addEntries_entries kMaxPriority ks cancel =
     map (mk_entry kMaxPriority cancel) (enumerate 0 ks)"

section \<open>Effects\<close>

text \<open>
  What the code does to the outside world is recorded as a trace of events, in the order
  in which the calls are made: log lines, goroutines started, channels closed, calls on
  the network and on a sender, the metrics observed and the envelope's callback.
\<close>

datatype log_level = Info | Warning | Error

datatype event =
    Log log_level string
  | Spawn peer_id
  | CloseDone peer_id
  | Reply "peer_id list"
  | ConnectTo peer_id
  | NewMessageSender peer_id
  | SendMsg sender_id message
  | CloseSender sender_id
  | Observe nat
  | SendMessage peer_id message
  | Sent

section \<open>The per-peer queue\<close>

text \<open>
  \<open>msgQueue\<close>. The channel \<open>work\<close> has a buffer of one: \<open>mq_work\<close> says that
  the token is in it. \<open>mq_done\<close> says that \<open>done\<close> has been closed. The lock
  \<open>outlk\<close> only makes each access to \<open>out\<close> atomic, which the functions below are.
\<close>

record msgQueue =
  mq_p :: peer_id
  mq_out :: "message option"
  mq_wl :: wantlist
  mq_sender :: "sender_id option"
  mq_refcnt :: int
  mq_work :: bool
  mq_done :: bool

definition newMsgQueue :: "peer_id \<Rightarrow> msgQueue" where
  "newMsgQueue pid =
     \<lparr>mq_p = pid, mq_out = None, mq_wl = [], mq_sender = None, mq_refcnt = 1,
      mq_work = False, mq_done = False\<rparr>"

text \<open>
  One round of the loop of \<open>addMessage\<close>, on the mirror, the pending message and the
  local flag \<open>work\<close>.
\<close>

definition addMessage_entry ::
  "bsmsg_Entry \<Rightarrow> wantlist \<times> message \<times> bool \<Rightarrow> wantlist \<times> message \<times> bool" where
  "addMessage_entry e st =
     (case st of (w, m, work) \<Rightarrow>
        if Cancel e then
          (case wl_Remove (Cid (Entry e)) w of
             (w', changed) \<Rightarrow>
               if changed then (w', msg_Cancel (Cid (Entry e)) m, True) else (w', m, work))
        else
          (case wl_Add (Cid (Entry e)) (Priority (Entry e)) w of
             (w', changed) \<Rightarrow>
               if changed then (w', msg_AddEntry (Cid (Entry e)) (Priority (Entry e)) m, True)
               else (w', m, work)))"

text \<open>
  \<open>addMessage\<close>: a missing pending message is allocated first; the deferred function
  puts the token into \<open>work\<close> when something changed, and the \<open>default\<close> branch of
  its \<open>select\<close> drops the signal when the token is already there.
\<close>

definition addMessage :: "bsmsg_Entry list \<Rightarrow> msgQueue \<Rightarrow> msgQueue" where
  "addMessage es mq =
     (let out0 = (case mq_out mq of None \<Rightarrow> msg_New False | Some m \<Rightarrow> m) in
      case fold addMessage_entry es (mq_wl mq, out0, False) of
        (w, m, work) \<Rightarrow>
          mq\<lparr>mq_out := Some m, mq_wl := w, mq_work := (mq_work mq \<or> work)\<rparr>)"

section \<open>The coordinator\<close>

text \<open>
  \<open>WantManager\<close>: the state that only \<open>Run\<close> touches (the peers, the want list),
  the gauge, and the trace of what the loop has done. The map \<open>peers\<close> is an
  association list with distinct keys.
\<close>

record WantManager =
  pm_peers :: "(peer_id \<times> msgQueue) list"
  pm_wl :: wantlist
  wantlistGauge :: int
  pm_trace :: "event list"

definition NewWantManager :: WantManager where
  "NewWantManager = \<lparr>pm_peers = [], pm_wl = [], wantlistGauge = 0, pm_trace = []\<rparr>"

text \<open>The loop of \<open>startPeerHandler\<close> over \<open>pm.wl.Entries()\<close>.\<close>

definition seed_entry :: "wl_Entry \<Rightarrow> wantlist \<times> message \<Rightarrow> wantlist \<times> message" where
  "seed_entry e st =
     (case st of (w, m) \<Rightarrow> (fst (wl_AddEntry e w), msg_AddEntry (Cid e) (Priority e) m))"

definition startPeerHandler :: "peer_id \<Rightarrow> WantManager \<Rightarrow> msgQueue option \<times> WantManager" where
  "startPeerHandler pid pm =
     (case map_of (pm_peers pm) pid of
        Some mq \<Rightarrow>
          (None, pm\<lparr>pm_peers := AList.update pid (mq\<lparr>mq_refcnt := mq_refcnt mq + 1\<rparr>) (pm_peers pm)\<rparr>)
      | None \<Rightarrow>
          (let mq = newMsgQueue pid in
           case fold seed_entry (wl_Entries (pm_wl pm)) (mq_wl mq, msg_New True) of
             (w, fullwantlist) \<Rightarrow>
               (let mq' = mq\<lparr>mq_wl := w, mq_out := Some fullwantlist, mq_work := True\<rparr> in
                (Some mq',
                 pm\<lparr>pm_peers := AList.update pid mq' (pm_peers pm),
                    pm_trace := pm_trace pm @ [Spawn pid]\<rparr>))))"

definition stopPeerHandler :: "peer_id \<Rightarrow> WantManager \<Rightarrow> WantManager" where
  "stopPeerHandler pid pm =
     (case map_of (pm_peers pm) pid of
        None \<Rightarrow> pm
      | Some pq \<Rightarrow>
          (let pq' = pq\<lparr>mq_refcnt := mq_refcnt pq - 1\<rparr> in
           if mq_refcnt pq' > 0 then pm\<lparr>pm_peers := AList.update pid pq' (pm_peers pm)\<rparr>
           else pm\<lparr>pm_peers := AList.delete pid (pm_peers pm),
                   pm_trace := pm_trace pm @ [CloseDone pid]\<rparr>))"

text \<open>\<open>Run\<close>, case \<open>incoming\<close>, first loop: the batch is applied to the want list.\<close>

definition Run_apply_entry :: "bsmsg_Entry \<Rightarrow> wantlist \<times> int \<Rightarrow> wantlist \<times> int" where
  "Run_apply_entry e st =
     (case st of (w, g) \<Rightarrow>
        if Cancel e then
          (case wl_Remove (Cid (Entry e)) w of (w', r) \<Rightarrow> (w', if r then g - 1 else g))
        else
          (case wl_AddEntry (Entry e) w of (w', r) \<Rightarrow> (w', if r then g + 1 else g)))"

text \<open>Second part: the batch is handed to the queues.\<close>

definition Run_target ::
  "bsmsg_Entry list \<Rightarrow> peer_id \<Rightarrow> (peer_id \<times> msgQueue) list \<times> event list \<Rightarrow>
   (peer_id \<times> msgQueue) list \<times> event list" where
  "Run_target es t st =
     (case st of (ps, tr) \<Rightarrow>
        (case map_of ps t of
           None \<Rightarrow> (ps, tr @ [Log Warning ''tried sending wantlist change to non-partner peer''])
         | Some mq \<Rightarrow> (AList.update t (addMessage es mq) ps, tr)))"

definition Run_broadcast :: "wantSet \<Rightarrow> WantManager \<Rightarrow> WantManager" where
  "Run_broadcast ws pm =
     (if length (targets ws) = 0 then
        pm\<lparr>pm_peers := map (\<lambda>kv. (fst kv, addMessage (entries ws) (snd kv))) (pm_peers pm)\<rparr>
      else
        (case fold (Run_target (entries ws)) (targets ws) (pm_peers pm, pm_trace pm) of
           (ps, tr) \<Rightarrow> pm\<lparr>pm_peers := ps, pm_trace := tr\<rparr>))"

definition Run_incoming :: "wantSet \<Rightarrow> WantManager \<Rightarrow> WantManager" where
  "Run_incoming ws pm =
     (case fold Run_apply_entry (entries ws) (pm_wl pm, wantlistGauge pm) of
        (w, g) \<Rightarrow> Run_broadcast ws (pm\<lparr>pm_wl := w, wantlistGauge := g\<rparr>))"

text \<open>Case \<open>tock.C\<close>: the periodic rebroadcast.\<close>

definition Run_tock :: "WantManager \<Rightarrow> WantManager" where
  "Run_tock pm =
     (let es = map (\<lambda>e. \<lparr>Cancel = False, Entry = e\<rparr>) (wl_Entries (pm_wl pm)) in
      pm\<lparr>pm_peers :=
           map (\<lambda>kv. (fst kv, addMessage es ((snd kv)\<lparr>mq_out := Some (msg_New True)\<rparr>)))
             (pm_peers pm)\<rparr>)"

text \<open>
  One iteration of \<open>Run\<close> handles the one event its \<open>select\<close> has received; the
  loop runs over the events in the order in which they are received and returns at
  \<open>CtxDone\<close>.
\<close>

datatype loop_event =
    Incoming wantSet
  | Tock
  | Connect peer_id
  | Disconnect peer_id
  | PeerReqs
  | CtxDone

fun Run_iter :: "loop_event \<Rightarrow> WantManager \<Rightarrow> WantManager" where
  "Run_iter (Incoming ws) pm = Run_incoming ws pm"
| "Run_iter Tock pm = Run_tock pm"
| "Run_iter (Connect pid) pm = snd (startPeerHandler pid pm)"
| "Run_iter (Disconnect pid) pm = stopPeerHandler pid pm"
| "Run_iter PeerReqs pm = pm\<lparr>pm_trace := pm_trace pm @ [Reply (map fst (pm_peers pm))]\<rparr>"
| "Run_iter CtxDone pm = pm"

fun Run :: "loop_event list \<Rightarrow> WantManager \<Rightarrow> WantManager" where
  "Run [] pm = pm"
| "Run (CtxDone # evs) pm = pm"
| "Run (ev # evs) pm = Run evs (Run_iter ev pm)"

section \<open>The send pipeline\<close>

text \<open>
  The network is outside the program. Its answers are given by the number of the call:
  whether the n-th \<open>ConnectTo\<close> fails, what the n-th \<open>NewMessageSender\<close> returns,
  whether the n-th \<open>SendMsg\<close> fails, and which case the n-th \<open>select\<close> inside the
  retry loop of \<open>doWork\<close> takes. An error is its text.
\<close>

type_synonym error = string

datatype wait_result = DoneClosed | CtxCancelled | TimerFired

record network =
  net_ConnectTo :: "nat \<Rightarrow> error option"
  net_NewMessageSender :: "nat \<Rightarrow> error + sender_id"
  net_SendMsg :: "nat \<Rightarrow> error option"
  net_select :: "nat \<Rightarrow> wait_result"

text \<open>How many calls of each kind have been made, and the trace of the pipeline.\<close>

record io =
  n_connect :: nat
  n_newsender :: nat
  n_send :: nat
  n_select :: nat
  io_trace :: "event list"

definition io0 :: io where
  "io0 = \<lparr>n_connect = 0, n_newsender = 0, n_send = 0, n_select = 0, io_trace = []\<rparr>"

definition openSender :: "network \<Rightarrow> msgQueue \<times> io \<Rightarrow> error option \<times> msgQueue \<times> io" where
  "openSender net st =
     (case st of (mq, s) \<Rightarrow>
        (let s1 = s\<lparr>n_connect := n_connect s + 1, io_trace := io_trace s @ [ConnectTo (mq_p mq)]\<rparr> in
         case net_ConnectTo net (n_connect s) of
           Some err \<Rightarrow> (Some err, mq, s1)
         | None \<Rightarrow>
             (let s2 = s1\<lparr>n_newsender := n_newsender s1 + 1,
                          io_trace := io_trace s1 @ [NewMessageSender (mq_p mq)]\<rparr> in
              case net_NewMessageSender net (n_newsender s1) of
                Inl err \<Rightarrow> (Some err, mq, s2)
              | Inr nsender \<Rightarrow> (None, mq\<lparr>mq_sender := Some nsender\<rparr>, s2))))"

text \<open>
  The loop \<open>for { ... }\<close> of \<open>doWork\<close> that sends \<open>wlm\<close>. It has no bound of its
  own, so it is a partial function: \<open>None\<close> is the loop that never returns. A call
  on a nil sender would panic, which is the result \<open>Inl\<close>.
\<close>

partial_function (option) sendLoop ::
  "network \<Rightarrow> message \<Rightarrow> msgQueue \<times> io \<Rightarrow> (error + msgQueue \<times> io) option" where
  "sendLoop net wlm st =
     (case st of (mq, s) \<Rightarrow>
        (case mq_sender mq of
           None \<Rightarrow> Some (Inl ''nil sender'')
         | Some sd \<Rightarrow>
             (let s1 = s\<lparr>n_send := n_send s + 1, io_trace := io_trace s @ [SendMsg sd wlm]\<rparr> in
              case net_SendMsg net (n_send s) of
                None \<Rightarrow> Some (Inr (mq, s1))
              | Some err \<Rightarrow>
                  (let s2 = s1\<lparr>io_trace := io_trace s1 @ [Log Info ''bitswap send error'', CloseSender sd]\<rparr>;
                       mq2 = mq\<lparr>mq_sender := None\<rparr>;
                       s3 = s2\<lparr>n_select := n_select s2 + 1\<rparr> in
                   case net_select net (n_select s2) of
                     DoneClosed \<Rightarrow> Some (Inr (mq2, s3))
                   | CtxCancelled \<Rightarrow> Some (Inr (mq2, s3))
                   | TimerFired \<Rightarrow>
                       (let s4 = s3\<lparr>io_trace := io_trace s3 @
                                   [Log Warning ''SendMsg errored but neither done nor context.Done() were set'']\<rparr> in
                        case openSender net (mq2, s4) of
                          (Some err2, mq3, s5) \<Rightarrow>
                            Some (Inr (mq3, s5\<lparr>io_trace := io_trace s5 @
                                   [Log Error ''couldnt open sender again after SendMsg failed'']\<rparr>))
                        | (None, mq3, s5) \<Rightarrow> sendLoop net wlm (mq3, s5))))))"

declare sendLoop.simps [code]

definition doWork :: "network \<Rightarrow> msgQueue \<times> io \<Rightarrow> (error + msgQueue \<times> io) option" where
  "doWork net st =
     (case st of (mq, s) \<Rightarrow>
        (case (if mq_sender mq = None then openSender net (mq, s) else (None, mq, s)) of
           (Some err, mq1, s1) \<Rightarrow>
             Some (Inr (mq1, s1\<lparr>io_trace := io_trace s1 @ [Log Info ''cant open message sender to peer'']\<rparr>))
         | (None, mq1, s1) \<Rightarrow>
             (case mq_out mq1 of
                None \<Rightarrow> Some (Inr (mq1, s1))
              | Some wlm \<Rightarrow>
                  if msg_Empty wlm then Some (Inr (mq1, s1))
                  else sendLoop net wlm (mq1\<lparr>mq_out := None\<rparr>, s1))))"

text \<open>
  \<open>runQueue\<close>: the loop around \<open>doWork\<close>, over the cases its \<open>select\<close> takes in
  turn. Taking \<open>work\<close> removes the token. When the loop returns, the deferred function
  closes the sender that is still open. A list that ends before \<open>done\<close> or the
  context is a pipeline that is waiting for its next signal.
\<close>

datatype queue_event = WorkSignal | DoneSignal | CtxDoneSignal

definition runQueue_exit :: "msgQueue \<times> io \<Rightarrow> msgQueue \<times> io" where
  "runQueue_exit st =
     (case st of (mq, s) \<Rightarrow>
        (case mq_sender mq of
           None \<Rightarrow> (mq, s)
         | Some sd \<Rightarrow> (mq, s\<lparr>io_trace := io_trace s @ [CloseSender sd]\<rparr>)))"

fun runQueue ::
  "network \<Rightarrow> queue_event list \<Rightarrow> msgQueue \<times> io \<Rightarrow> (error + msgQueue \<times> io) option" where
  "runQueue net [] st = Some (Inr st)"
| "runQueue net (WorkSignal # evs) st =
     (case doWork net ((fst st)\<lparr>mq_work := False\<rparr>, snd st) of
        None \<Rightarrow> None
      | Some (Inl err) \<Rightarrow> Some (Inl err)
      | Some (Inr st') \<Rightarrow> runQueue net evs st')"
| "runQueue net (DoneSignal # evs) st = Some (Inr (runQueue_exit st))"
| "runQueue net (CtxDoneSignal # evs) st = Some (Inr (runQueue_exit st))"

section \<open>Sending a block\<close>

text \<open>
  \<open>engine.Envelope\<close>: the block (its raw bytes), the peer, and the callback
  \<open>Sent\<close>, whose call is the event \<open>Sent\<close>.
\<close>

record Envelope =
  env_Block :: block
  env_Peer :: peer_id

text \<open>
  \<open>SendBlock\<close>, given what \<open>network.SendMessage\<close> returns. The deferred
  \<open>env.Sent()\<close> runs when the function returns.
\<close>

definition SendBlock :: "error option \<Rightarrow> Envelope \<Rightarrow> event list" where
  "SendBlock send_result env =
     (let msg = msg_AddBlock (env_Block env) (msg_New False) in
      [Observe (length (env_Block env)),
       Log Info ''Sending block'',
       SendMessage (env_Peer env) msg]
      @ (case send_result of None \<Rightarrow> [] | Some err \<Rightarrow> [Log Info ''sendblock error''])
      @ [Sent])"

section \<open>The producers\<close>

text \<open>
  A \<open>select\<close> takes one of the cases that can proceed, any of them (the choice is the
  scheduler's, given as a number), and blocks when none can: the result \<open>None\<close>.
\<close>

definition select_case :: "bool list \<Rightarrow> nat \<Rightarrow> nat option" where
  "select_case ready choice =
     (let is = filter (\<lambda>i. ready ! i) [0..<length ready] in
      if is = [] then None else Some (is ! (choice mod length is)))"

text \<open>
  What a producer meets at the coordinator's channels: whether a send on \<open>incoming\<close>,
  \<open>connect\<close> and \<open>disconnect\<close> (buffered) can proceed, whether the loop is there to
  receive on \<open>peerReqs\<close> (not buffered), and whether \<open>pm.ctx\<close> has been cancelled.
\<close>

record channels =
  incoming_ready :: bool
  connect_ready :: bool
  disconnect_ready :: bool
  peerReqs_ready :: bool
  pm_ctx_done :: bool

datatype 'a delivery = Delivered 'a | Shutdown | CallerDone

text \<open>
  \<open>addEntries\<close>: the batch is built, then the \<open>select\<close> over the send on
  \<open>incoming\<close>, \<open>pm.ctx.Done()\<close> and the caller's \<open>ctx.Done()\<close>.
\<close>

definition addEntries ::
  "priority \<Rightarrow> channels \<Rightarrow> nat \<Rightarrow> bool \<Rightarrow> cid list \<Rightarrow> bool \<Rightarrow> wantSet delivery option" where
  "addEntries kMaxPriority ch choice ctx_done ks cancel =
     (let ws = \<lparr>entries = addEntries_entries kMaxPriority ks cancel, targets = []\<rparr> in
      case select_case [incoming_ready ch, pm_ctx_done ch, ctx_done] choice of
        None \<Rightarrow> None
      | Some n \<Rightarrow>
          (if n = 0 then Some (Delivered ws)
           else if n = 1 then Some Shutdown
           else Some CallerDone))"

text \<open>\<open>WantBlocks\<close> writes its log line, then calls \<open>addEntries\<close>.\<close>

definition WantBlocks ::
  "priority \<Rightarrow> channels \<Rightarrow> nat \<Rightarrow> bool \<Rightarrow> cid list \<Rightarrow>
   event list \<times> wantSet delivery option" where
  "WantBlocks kMaxPriority ch choice ctx_done ks =
     ([Log Info ''want blocks''], addEntries kMaxPriority ch choice ctx_done ks False)"

text \<open>\<open>CancelWants\<close> passes \<open>context.Background()\<close>, which is never done.\<close>

definition CancelWants ::
  "priority \<Rightarrow> channels \<Rightarrow> nat \<Rightarrow> cid list \<Rightarrow> wantSet delivery option" where
  "CancelWants kMaxPriority ch choice ks =
     addEntries kMaxPriority ch choice False ks True"

definition Connected :: "channels \<Rightarrow> nat \<Rightarrow> peer_id \<Rightarrow> loop_event delivery option" where
  "Connected ch choice pid =
     (case select_case [connect_ready ch, pm_ctx_done ch] choice of
        None \<Rightarrow> None
      | Some n \<Rightarrow> (if n = 0 then Some (Delivered (Connect pid)) else Some Shutdown))"

definition Disconnected :: "channels \<Rightarrow> nat \<Rightarrow> peer_id \<Rightarrow> loop_event delivery option" where
  "Disconnected ch choice pid =
     (case select_case [disconnect_ready ch, pm_ctx_done ch] choice of
        None \<Rightarrow> None
      | Some n \<Rightarrow> (if n = 0 then Some (Delivered (Disconnect pid)) else Some Shutdown))"

text \<open>
  \<open>ConnectedPeers\<close>: a plain send on \<open>peerReqs\<close>, then a plain receive of the
  answer, which the loop gives in the same iteration in which it takes the request.
\<close>

definition ConnectedPeers :: "channels \<Rightarrow> WantManager \<Rightarrow> peer_id list option" where
  "ConnectedPeers ch pm =
     (if peerReqs_ready ch then Some (map fst (pm_peers pm)) else None)"

section \<open>Notions used in the statements\<close>

text \<open>
  A want list in good order: every id occurs once and is the id of its entry. The
  reference count of an id is that of its entry, and 0 for an id that is absent; the
  counts of the entries are positive.
\<close>

definition wl_ok :: "wantlist \<Rightarrow> bool" where
  "wl_ok w = (distinct (map fst w) \<and> (\<forall>ce \<in> set w. Cid (snd ce) = fst ce))"

definition refcount :: "wantlist \<Rightarrow> cid \<Rightarrow> int" where
  "refcount w c = (case map_of w c of None \<Rightarrow> 0 | Some e \<Rightarrow> RefCnt e)"

definition rc_ok :: "wantlist \<Rightarrow> bool" where
  "rc_ok w = (\<forall>ce \<in> set w. 1 \<le> RefCnt (snd ce))"

definition gauge_inv :: "wantlist \<Rightarrow> int \<Rightarrow> bool" where
  "gauge_inv w g = (wl_ok w \<and> rc_ok w \<and> g = int (length w))"

text \<open>The items of the message that announces a whole want list.\<close>

definition full_items :: "wantlist \<Rightarrow> (cid \<times> priority \<times> bool) list" where
  "full_items w = map (\<lambda>ce. (fst ce, Priority (snd ce), False)) w"

text \<open>
  The batches that reach the loop are those that \<open>addEntries\<close> has built: each of
  their entries has the reference count 1.
\<close>

fun event_ok :: "loop_event \<Rightarrow> bool" where
  "event_ok (Incoming ws) = (\<forall>e \<in> set (entries ws). RefCnt (Entry e) = 1)"
| "event_ok ev = True"

text \<open>The messages handed to \<open>SendMsg\<close> in a trace, in order.\<close>

fun sent_msgs :: "event list \<Rightarrow> message list" where
  "sent_msgs [] = []"
| "sent_msgs (SendMsg sd m # tr) = m # sent_msgs tr"
| "sent_msgs (ev # tr) = sent_msgs tr"

text \<open>
  The retry number \<open>k\<close> after the state \<open>s\<close> goes through: the \<open>select\<close> takes
  the timer, and the sender is opened again.
\<close>

definition retry_ok :: "network \<Rightarrow> io \<Rightarrow> nat \<Rightarrow> bool" where
  "retry_ok net s k =
     (net_select net (n_select s + k) = TimerFired
      \<and> net_ConnectTo net (n_connect s + k) = None
      \<and> \<not> isl (net_NewMessageSender net (n_newsender s + k)))"

text \<open>
  What one failed transmission that is followed by a retry leaves in the trace: the
  transmission on the sender in use, the log line, the closing of that sender, the
  warning after the wait, and the two calls that open a sender again.
\<close>

definition retry_round :: "peer_id \<Rightarrow> sender_id \<Rightarrow> message \<Rightarrow> event list" where
  "retry_round pid sd wlm =
     [SendMsg sd wlm, Log Info ''bitswap send error'', CloseSender sd,
      Log Warning ''SendMsg errored but neither done nor context.Done() were set'',
      ConnectTo pid, NewMessageSender pid]"

text \<open>
  The sender in use for transmission number \<open>k\<close> of a cycle that starts in the state
  \<open>s0\<close> with the sender \<open>sd0\<close>: \<open>sd0\<close> itself for the first transmission, then
  the sender that the reopen before the transmission returned.
\<close>

definition sender_at :: "network \<Rightarrow> io \<Rightarrow> sender_id \<Rightarrow> nat \<Rightarrow> sender_id" where
  "sender_at net s0 sd0 k =
     (case k of
        0 \<Rightarrow> sd0
      | Suc j \<Rightarrow> (case net_NewMessageSender net (n_newsender s0 + j) of
                   Inr sd \<Rightarrow> sd | Inl err \<Rightarrow> sd0))"

text \<open>The trace of the first \<open>n\<close> rounds, and the state after them.\<close>

definition rounds_trace ::
  "network \<Rightarrow> io \<Rightarrow> peer_id \<Rightarrow> sender_id \<Rightarrow> message \<Rightarrow> nat \<Rightarrow> event list" where
  "rounds_trace net s0 pid sd0 wlm n =
     concat (map (\<lambda>k. retry_round pid (sender_at net s0 sd0 k) wlm) [0..<n])"

definition after_rounds ::
  "network \<Rightarrow> io \<Rightarrow> peer_id \<Rightarrow> sender_id \<Rightarrow> message \<Rightarrow> nat \<Rightarrow> io" where
  "after_rounds net s0 pid sd0 wlm n =
     s0\<lparr>n_send := n_send s0 + n, n_select := n_select s0 + n,
        n_connect := n_connect s0 + n, n_newsender := n_newsender s0 + n,
        io_trace := io_trace s0 @ rounds_trace net s0 pid sd0 wlm n\<rparr>"

text \<open>
  The pending message that \<open>addMessage\<close> works on: the one the queue holds, or a new
  incremental message when it holds none.
\<close>

definition pending :: "msgQueue \<Rightarrow> message" where
  "pending mq = (case mq_out mq of None \<Rightarrow> msg_New False | Some m \<Rightarrow> m)"

section \<open>Example inputs\<close>

text \<open>
  Networks: one where everything succeeds, one where the first two calls of
  \<open>SendMsg\<close> fail, one where every \<open>SendMsg\<close> fails and \<open>ConnectTo\<close> fails
  from its third call on.
\<close>

definition net_ok :: network where
  "net_ok =
     \<lparr>net_ConnectTo = (\<lambda>k. None),
      net_NewMessageSender = (\<lambda>k. Inr k),
      net_SendMsg = (\<lambda>k. None),
      net_select = (\<lambda>k. TimerFired)\<rparr>"

definition net_fails_twice :: network where
  "net_fails_twice =
     \<lparr>net_ConnectTo = (\<lambda>k. None),
      net_NewMessageSender = (\<lambda>k. Inr (Suc k)),
      net_SendMsg = (\<lambda>k. if k < 2 then Some ''broken pipe'' else None),
      net_select = (\<lambda>k. TimerFired)\<rparr>"

definition net_reopen_fails :: network where
  "net_reopen_fails =
     \<lparr>net_ConnectTo = (\<lambda>k. if k < 2 then None else Some ''dial backoff''),
      net_NewMessageSender = (\<lambda>k. Inr (Suc k)),
      net_SendMsg = (\<lambda>k. Some ''broken pipe''),
      net_select = (\<lambda>k. TimerFired)\<rparr>"

text \<open>A queue with an open sender and a pending message.\<close>

definition msg_ex :: message where
  "msg_ex = \<lparr>full = False, msg_wantlist = [(5, 9, False)], msg_blocks = []\<rparr>"

definition mq_ex :: msgQueue where
  "mq_ex = \<lparr>mq_p = 1, mq_out = Some msg_ex, mq_wl = [(5, \<lparr>Cid = 5, Priority = 9, RefCnt = 1\<rparr>)],
            mq_sender = Some 0, mq_refcnt = 1, mq_work = False, mq_done = False\<rparr>"

text \<open>
  The batch of WantBlocks for the id 5, and the manager after that batch, the connect
  event of peer 1 and the first flush of the peer's pipeline.
\<close>

definition want5 :: wantSet where
  "want5 = \<lparr>entries = addEntries_entries 2147483647 [5] False, targets = []\<rparr>"

definition mq_flushed :: msgQueue where
  "mq_flushed =
     \<lparr>mq_p = 1, mq_out = None, mq_wl = [(5, \<lparr>Cid = 5, Priority = 2147483647, RefCnt = 1\<rparr>)],
      mq_sender = Some 0, mq_refcnt = 1, mq_work = False, mq_done = False\<rparr>"

definition pm_flushed :: WantManager where
  "pm_flushed =
     \<lparr>pm_peers = [(1, mq_flushed)],
      pm_wl = [(5, \<lparr>Cid = 5, Priority = 2147483647, RefCnt = 1\<rparr>)],
      wantlistGauge = 1, pm_trace = [Spawn 1]\<rparr>"

text \<open>
  The queue that \<open>startPeerHandler\<close> creates for peer 1 when the want list holds the
  id 5, and the full message it is given.
\<close>

definition msg_full5 :: message where
  "msg_full5 = \<lparr>full = True, msg_wantlist = [(5, 2147483647, False)], msg_blocks = []\<rparr>"

definition mq_new :: msgQueue where
  "mq_new =
     \<lparr>mq_p = 1,
      mq_out = Some \<lparr>full = True, msg_wantlist = [(5, 2147483647, False)], msg_blocks = []\<rparr>,
      mq_wl = [(5, \<lparr>Cid = 5, Priority = 2147483647, RefCnt = 1\<rparr>)],
      mq_sender = None, mq_refcnt = 1, mq_work = True, mq_done = False\<rparr>"

definition pm_two_peers :: WantManager where
  "pm_two_peers =
     \<lparr>pm_peers = [(1, newMsgQueue 1), (2, newMsgQueue 2)], pm_wl = [], wantlistGauge = 0,
      pm_trace = []\<rparr>"

text \<open>Channels on which nothing can proceed, before the shutdown.\<close>

definition ch_busy :: channels where
  "ch_busy = \<lparr>incoming_ready = False, connect_ready = False, disconnect_ready = False,
              peerReqs_ready = False, pm_ctx_done = False\<rparr>"

section \<open>Properties of addEntries\<close>

lemma length_addEntries_entries:
  "length (addEntries_entries k ks c) = length ks"
  by (simp add: addEntries_entries_def)

lemma nth_addEntries_entries:
  "i < length ks \<Longrightarrow>
   addEntries_entries k ks c ! i =
     \<lparr>Cancel = c, Entry = \<lparr>Cid = ks ! i, Priority = k - of_nat i, RefCnt = 1\<rparr>\<rparr>"
  by (simp add: addEntries_entries_def mk_entry_def nth_enumerate_eq)

lemma sint_sub_of_nat:
  fixes k :: "64 word"
  assumes "0 \<le> sint k" "i < 2 ^ 63"
  shows "sint (k - of_nat i) = sint k - int i"
proof -
  have i: "sint (of_nat i :: 64 word) = int i"
    using assms(2) by (simp add: signed_of_nat signed_take_bit_int_eq_self)
  have ub: "sint k < 2 ^ 63" using sint_lt [of k] by simp
  have "sint (k - of_nat i) = signed_take_bit 63 (sint k - sint (of_nat i :: 64 word))"
    by (simp add: sint_word_ariths)
  also have "\<dots> = sint k - int i"
    unfolding i using assms ub by (intro signed_take_bit_int_eq_self) simp_all
  finally show ?thesis .
qed

text \<open>
  C8. The entries that \<open>addEntries\<close> builds for WantBlocks and CancelWants keep the
  order of the ids and carry strictly decreasing priorities: a later position has a
  strictly smaller priority, and no position has a priority above that of the first id.
  The priorities are read as Go reads them, as signed 64-bit integers;
  \<open>kMaxPriority\<close> is not negative and the slice has a length that Go can
  represent.
\<close>

theorem addEntries_priorities_strictly_decreasing:
  assumes k: "0 \<le> sint kMaxPriority"
    and len: "length ks < 2 ^ 63"
    and ij: "i < j" "j < length ks"
  shows "length (addEntries_entries kMaxPriority ks cancel) = length ks
       \<and> Cid (Entry (addEntries_entries kMaxPriority ks cancel ! i)) = ks ! i
       \<and> Cid (Entry (addEntries_entries kMaxPriority ks cancel ! j)) = ks ! j
       \<and> sint (Priority (Entry (addEntries_entries kMaxPriority ks cancel ! j)))
           < sint (Priority (Entry (addEntries_entries kMaxPriority ks cancel ! i)))
       \<and> sint (Priority (Entry (addEntries_entries kMaxPriority ks cancel ! i)))
           \<le> sint (Priority (Entry (addEntries_entries kMaxPriority ks cancel ! 0)))"
proof -
  have i: "i < length ks" using ij by simp
  have z: "0 < length ks" using ij by (cases ks) simp_all
  have bi: "i < 2 ^ 63" and bj: "j < 2 ^ 63" using ij len by simp_all
  have pi: "sint (Priority (Entry (addEntries_entries kMaxPriority ks cancel ! i)))
              = sint kMaxPriority - int i"
    by (simp add: nth_addEntries_entries [OF i] sint_sub_of_nat [OF k bi])
  have pj: "sint (Priority (Entry (addEntries_entries kMaxPriority ks cancel ! j)))
              = sint kMaxPriority - int j"
    by (simp add: nth_addEntries_entries [OF ij(2)] sint_sub_of_nat [OF k bj])
  have p0: "sint (Priority (Entry (addEntries_entries kMaxPriority ks cancel ! 0)))
              = sint kMaxPriority"
    by (simp add: nth_addEntries_entries [OF z])
  have ci: "Cid (Entry (addEntries_entries kMaxPriority ks cancel ! i)) = ks ! i"
    by (simp add: nth_addEntries_entries [OF i])
  have cj: "Cid (Entry (addEntries_entries kMaxPriority ks cancel ! j)) = ks ! j"
    by (simp add: nth_addEntries_entries [OF ij(2)])
  have lt: "sint kMaxPriority - int j < sint kMaxPriority - int i" using ij by simp
  have le: "sint kMaxPriority - int i \<le> sint kMaxPriority" by simp
  show ?thesis
    unfolding pi pj p0 ci cj length_addEntries_entries using lt le by blast
qed

theorem addEntries_priorities_strictly_decreasing_witness:
  "sint (Priority (Entry (addEntries_entries 2147483647 [7, 8, 9] False ! 2)))
     < sint (Priority (Entry (addEntries_entries 2147483647 [7, 8, 9] False ! 0)))
   \<and> map (\<lambda>e. sint (Priority (Entry e))) (addEntries_entries 2147483647 [7, 8, 9] False)
       = [2147483647, 2147483646, 2147483645]"
proof -
  have a: "(0::int) \<le> sint (2147483647 :: 64 word)" by simp
  have b: "length [7, 8, 9 :: nat] < 2 ^ 63" by simp
  have c: "(0::nat) < 2" "2 < length [7, 8, 9 :: nat]" by simp_all
  have d: "map (\<lambda>e. sint (Priority (Entry e))) (addEntries_entries 2147483647 [7, 8, 9] False)
       = [2147483647, 2147483646, 2147483645]"
    by (simp add: addEntries_entries_def mk_entry_def)
  show ?thesis
    using addEntries_priorities_strictly_decreasing [OF a b c, of False] d by simp
qed

section \<open>Sending a block: the callback\<close>

text \<open>
  C5. \<open>SendBlock\<close> calls the envelope's callback \<open>Sent\<close> exactly once, when
  \<open>network.SendMessage\<close> succeeds and when it returns an error, and it calls it
  last, after the message with the block has been handed to the network.
\<close>

theorem SendBlock_calls_Sent_exactly_once:
  "count_list (SendBlock None env) Sent = 1
   \<and> count_list (SendBlock (Some err) env) Sent = 1
   \<and> last (SendBlock send_result env) = Sent
   \<and> SendMessage (env_Peer env) (msg_AddBlock (env_Block env) (msg_New False))
        \<in> set (butlast (SendBlock send_result env))"
  by (cases send_result) (simp_all add: SendBlock_def Let_def)

section \<open>Connect events\<close>

lemma map_of_update_same: "map_of (AList.update k v al) k = Some v"
  by (simp add: update_conv')

lemma map_of_update_other: "k' \<noteq> k \<Longrightarrow> map_of (AList.update k v al) k' = map_of al k'"
  by (simp add: update_conv')

lemma map_of_delete_same: "map_of (AList.delete k al) k = None"
  by (simp add: delete_conv')

lemma stop_unregistered:
  "map_of (pm_peers pm) pid = None \<Longrightarrow> stopPeerHandler pid pm = pm"
  by (simp add: stopPeerHandler_def)

lemma stop_keep:
  "map_of (pm_peers pm) pid = Some pq \<Longrightarrow> 1 < mq_refcnt pq \<Longrightarrow>
   stopPeerHandler pid pm =
     pm\<lparr>pm_peers := AList.update pid (pq\<lparr>mq_refcnt := mq_refcnt pq - 1\<rparr>) (pm_peers pm)\<rparr>"
  by (simp add: stopPeerHandler_def Let_def)

lemma stop_teardown:
  "map_of (pm_peers pm) pid = Some pq \<Longrightarrow> mq_refcnt pq \<le> 1 \<Longrightarrow>
   stopPeerHandler pid pm =
     pm\<lparr>pm_peers := AList.delete pid (pm_peers pm), pm_trace := pm_trace pm @ [CloseDone pid]\<rparr>"
  by (simp add: stopPeerHandler_def Let_def)

lemma start_registered:
  "map_of (pm_peers pm) pid = Some mq \<Longrightarrow>
   startPeerHandler pid pm =
     (None, pm\<lparr>pm_peers := AList.update pid (mq\<lparr>mq_refcnt := mq_refcnt mq + 1\<rparr>) (pm_peers pm)\<rparr>)"
  by (simp add: startPeerHandler_def)

lemma start_unregistered:
  "map_of (pm_peers pm) pid = None \<Longrightarrow>
   \<exists>mq. startPeerHandler pid pm =
     (Some mq, pm\<lparr>pm_peers := AList.update pid mq (pm_peers pm), pm_trace := pm_trace pm @ [Spawn pid]\<rparr>)
     \<and> mq_refcnt mq = 1 \<and> mq_work mq \<and> mq_p mq = pid \<and> mq_sender mq = None \<and> \<not> mq_done mq
     \<and> (mq_wl mq, the (mq_out mq)) = fold seed_entry (wl_Entries (pm_wl pm)) ([], msg_New True)
     \<and> mq_out mq \<noteq> None"
  by (simp add: startPeerHandler_def Let_def newMsgQueue_def split: prod.splits)

lemma update_fresh: "k \<notin> fst ` set al \<Longrightarrow> AList.update k v al = al @ [(k, v)]"
  by (induction al) auto

lemma map_of_fresh: "k \<notin> fst ` set al \<Longrightarrow> map_of al k = None"
  by (simp add: map_of_eq_None_iff)

lemma fold_seed_entry:
  "distinct (map fst (w1 @ w2)) \<Longrightarrow> \<forall>ce \<in> set w2. Cid (snd ce) = fst ce \<Longrightarrow>
   fst ` set (msg_wantlist m) = fst ` set w1 \<Longrightarrow>
   fold seed_entry (wl_Entries w2) (w1, m) =
     (w1 @ w2, m\<lparr>msg_wantlist := msg_wantlist m @ full_items w2\<rparr>)"
proof (induction w2 arbitrary: w1 m)
  case Nil
  then show ?case by (simp add: wl_Entries_def full_items_def)
next
  case (Cons ce w2)
  obtain c e where ce: "ce = (c, e)" by (cases ce)
  have c: "Cid e = c" using Cons.prems(2) ce by simp
  have fresh: "c \<notin> fst ` set w1" using Cons.prems(1) ce by auto
  have fresh_m: "c \<notin> fst ` set (msg_wantlist m)" using fresh Cons.prems(3) by simp
  have step: "seed_entry e (w1, m) =
      (w1 @ [(c, e)], m\<lparr>msg_wantlist := msg_wantlist m @ [(c, Priority e, False)]\<rparr>)"
    using fresh fresh_m
    by (simp add: seed_entry_def wl_AddEntry_def msg_AddEntry_def c map_of_fresh update_fresh)
  have d: "distinct (map fst ((w1 @ [(c, e)]) @ w2))" using Cons.prems(1) ce by simp
  have k: "\<forall>ce \<in> set w2. Cid (snd ce) = fst ce" using Cons.prems(2) by simp
  have dm: "fst ` set (msg_wantlist (m\<lparr>msg_wantlist := msg_wantlist m @ [(c, Priority e, False)]\<rparr>))
      = fst ` set (w1 @ [(c, e)])"
    using Cons.prems(3) by auto
  have "fold seed_entry (wl_Entries (ce # w2)) (w1, m) =
      fold seed_entry (wl_Entries w2) (seed_entry e (w1, m))"
    by (simp add: wl_Entries_def ce)
  also have "\<dots> = ((w1 @ [(c, e)]) @ w2,
      m\<lparr>msg_wantlist := msg_wantlist m @ [(c, Priority e, False)]\<rparr>
       \<lparr>msg_wantlist := msg_wantlist (m\<lparr>msg_wantlist := msg_wantlist m @ [(c, Priority e, False)]\<rparr>)
          @ full_items w2\<rparr>)"
    unfolding step by (rule Cons.IH [OF d k dm])
  finally show ?case by (simp add: ce full_items_def)
qed

lemma seed_from_empty:
  "wl_ok w \<Longrightarrow>
   fold seed_entry (wl_Entries w) ([], msg_New True) =
     (w, \<lparr>full = True, msg_wantlist = full_items w, msg_blocks = []\<rparr>)"
  using fold_seed_entry [of "[]" w "msg_New True"]
  by (simp add: wl_ok_def msg_New_def)

text \<open>
  C3. A connect event for a peer that is registered only adds one to the reference count
  of its registration: the registry keeps its keys, the queue keeps its pending message,
  its mirror and its work signal, and nothing is started. A connect event for a peer that
  is not registered creates a queue with the reference count 1 whose mirror is a copy of
  the process-wide want list and whose pending message is the full message with every
  entry of that list, puts the work token, registers the queue and starts its pipeline
  (the event \<open>Spawn\<close>). Other peers, the want list and the gauge are untouched.
\<close>

theorem startPeerHandler_connect:
  assumes "wl_ok (pm_wl pm)"
  shows "(map_of (pm_peers pm) pid = Some mq \<longrightarrow>
            startPeerHandler pid pm =
              (None, pm\<lparr>pm_peers := AList.update pid (mq\<lparr>mq_refcnt := mq_refcnt mq + 1\<rparr>) (pm_peers pm)\<rparr>)
            \<and> map fst (pm_peers (snd (startPeerHandler pid pm))) = map fst (pm_peers pm)
            \<and> map_of (pm_peers (snd (startPeerHandler pid pm))) pid
                = Some (mq\<lparr>mq_refcnt := mq_refcnt mq + 1\<rparr>))
       \<and> (map_of (pm_peers pm) pid = None \<longrightarrow>
            startPeerHandler pid pm =
              (Some \<lparr>mq_p = pid,
                     mq_out = Some \<lparr>full = True, msg_wantlist = full_items (pm_wl pm), msg_blocks = []\<rparr>,
                     mq_wl = pm_wl pm, mq_sender = None, mq_refcnt = 1,
                     mq_work = True, mq_done = False\<rparr>,
               pm\<lparr>pm_peers := pm_peers pm @
                     [(pid, \<lparr>mq_p = pid,
                        mq_out = Some \<lparr>full = True, msg_wantlist = full_items (pm_wl pm), msg_blocks = []\<rparr>,
                        mq_wl = pm_wl pm, mq_sender = None, mq_refcnt = 1,
                        mq_work = True, mq_done = False\<rparr>)],
                  pm_trace := pm_trace pm @ [Spawn pid]\<rparr>))
       \<and> (q \<noteq> pid \<longrightarrow> map_of (pm_peers (snd (startPeerHandler pid pm))) q = map_of (pm_peers pm) q)
       \<and> pm_wl (snd (startPeerHandler pid pm)) = pm_wl pm
       \<and> wantlistGauge (snd (startPeerHandler pid pm)) = wantlistGauge pm"
proof -
  have reg: "map_of (pm_peers pm) pid = Some mq \<Longrightarrow> pid \<in> fst ` set (pm_peers pm)"
    by (metis map_of_eq_None_iff option.distinct(1))
  have unreg: "map_of (pm_peers pm) pid = None \<Longrightarrow> pid \<notin> fst ` set (pm_peers pm)"
    by (simp add: map_of_eq_None_iff)
  have a: "map_of (pm_peers pm) pid = Some mq \<longrightarrow>
            startPeerHandler pid pm =
              (None, pm\<lparr>pm_peers := AList.update pid (mq\<lparr>mq_refcnt := mq_refcnt mq + 1\<rparr>) (pm_peers pm)\<rparr>)
            \<and> map fst (pm_peers (snd (startPeerHandler pid pm))) = map fst (pm_peers pm)
            \<and> map_of (pm_peers (snd (startPeerHandler pid pm))) pid
                = Some (mq\<lparr>mq_refcnt := mq_refcnt mq + 1\<rparr>)"
    using reg by (simp add: start_registered update_keys map_of_update_same)
  have b: "map_of (pm_peers pm) pid = None \<longrightarrow>
            startPeerHandler pid pm =
              (Some \<lparr>mq_p = pid,
                     mq_out = Some \<lparr>full = True, msg_wantlist = full_items (pm_wl pm), msg_blocks = []\<rparr>,
                     mq_wl = pm_wl pm, mq_sender = None, mq_refcnt = 1,
                     mq_work = True, mq_done = False\<rparr>,
               pm\<lparr>pm_peers := pm_peers pm @
                     [(pid, \<lparr>mq_p = pid,
                        mq_out = Some \<lparr>full = True, msg_wantlist = full_items (pm_wl pm), msg_blocks = []\<rparr>,
                        mq_wl = pm_wl pm, mq_sender = None, mq_refcnt = 1,
                        mq_work = True, mq_done = False\<rparr>)],
                  pm_trace := pm_trace pm @ [Spawn pid]\<rparr>)"
    using unreg
    by (simp add: startPeerHandler_def Let_def newMsgQueue_def seed_from_empty [OF assms] update_fresh)
  have c: "q \<noteq> pid \<longrightarrow> map_of (pm_peers (snd (startPeerHandler pid pm))) q = map_of (pm_peers pm) q"
    by (simp add: startPeerHandler_def Let_def map_of_update_other split: option.splits prod.splits)
  have d: "pm_wl (snd (startPeerHandler pid pm)) = pm_wl pm"
    by (simp add: startPeerHandler_def Let_def split: option.splits prod.splits)
  have e: "wantlistGauge (snd (startPeerHandler pid pm)) = wantlistGauge pm"
    by (simp add: startPeerHandler_def Let_def split: option.splits prod.splits)
  show ?thesis using a b c d e by blast
qed

theorem startPeerHandler_connect_witness:
  "startPeerHandler 1
     \<lparr>pm_peers = [], pm_wl = [(5, \<lparr>Cid = 5, Priority = 9, RefCnt = 2\<rparr>)], wantlistGauge = 1, pm_trace = []\<rparr>
   = (Some \<lparr>mq_p = 1,
         mq_out = Some \<lparr>full = True, msg_wantlist = [(5, 9, False)], msg_blocks = []\<rparr>,
         mq_wl = [(5, \<lparr>Cid = 5, Priority = 9, RefCnt = 2\<rparr>)], mq_sender = None, mq_refcnt = 1,
         mq_work = True, mq_done = False\<rparr>,
      \<lparr>pm_peers = [(1, \<lparr>mq_p = 1,
         mq_out = Some \<lparr>full = True, msg_wantlist = [(5, 9, False)], msg_blocks = []\<rparr>,
         mq_wl = [(5, \<lparr>Cid = 5, Priority = 9, RefCnt = 2\<rparr>)], mq_sender = None, mq_refcnt = 1,
         mq_work = True, mq_done = False\<rparr>)],
       pm_wl = [(5, \<lparr>Cid = 5, Priority = 9, RefCnt = 2\<rparr>)], wantlistGauge = 1, pm_trace = [Spawn 1]\<rparr>)
   \<and> map_of (pm_peers (snd (startPeerHandler 1
        \<lparr>pm_peers = [(1, newMsgQueue 1)], pm_wl = [(5, \<lparr>Cid = 5, Priority = 9, RefCnt = 2\<rparr>)],
         wantlistGauge = 1, pm_trace = []\<rparr>))) 1
       = Some ((newMsgQueue 1)\<lparr>mq_refcnt := 2\<rparr>)"
proof -
  let ?w = "[(5 :: cid, \<lparr>Cid = 5, Priority = 9 :: priority, RefCnt = 2\<rparr>)]"
  let ?pm0 = "\<lparr>pm_peers = [], pm_wl = ?w, wantlistGauge = 1, pm_trace = []\<rparr>"
  let ?pm1 = "\<lparr>pm_peers = [(1, newMsgQueue 1)], pm_wl = ?w, wantlistGauge = 1, pm_trace = []\<rparr>"
  have ok0: "wl_ok (pm_wl ?pm0)" and ok1: "wl_ok (pm_wl ?pm1)" by (simp_all add: wl_ok_def)
  have u: "map_of (pm_peers ?pm0) 1 = None" by simp
  have r: "map_of (pm_peers ?pm1) 1 = Some (newMsgQueue 1)" by simp
  have rc: "mq_refcnt (newMsgQueue 1) + 1 = 2" by (simp add: newMsgQueue_def)
  show ?thesis
    using startPeerHandler_connect [OF ok0, of 1 "newMsgQueue 1" 1] u
      startPeerHandler_connect [OF ok1, of 1 "newMsgQueue 1" 1] r rc
    by (simp add: full_items_def)
qed

section \<open>The gauge and the want list\<close>

lemma set_update_subset: "set (AList.update k v al) \<subseteq> insert (k, v) (set al)"
  by (induction al) auto

lemma length_update_present: "k \<in> fst ` set al \<Longrightarrow> length (AList.update k v al) = length al"
  by (induction al) auto

lemma length_delete_present:
  "distinct (map fst al) \<Longrightarrow> k \<in> fst ` set al \<Longrightarrow> Suc (length (AList.delete k al)) = length al"
proof (induction al)
  case Nil
  then show ?case by simp
next
  case (Cons a al)
  show ?case
  proof (cases "fst a = k")
    case True
    then have "k \<notin> fst ` set al" using Cons.prems(1) by auto
    then show ?thesis using True by (simp add: AList.delete_id)
  next
    case False
    then show ?thesis using Cons by auto
  qed
qed

lemma wl_ok_update:
  "wl_ok w \<Longrightarrow> Cid e = c \<Longrightarrow> wl_ok (AList.update c e w)"
  unfolding wl_ok_def using set_update_subset [of c e w]
  by (auto simp: distinct_update)

lemma rc_ok_update:
  "rc_ok w \<Longrightarrow> 1 \<le> RefCnt e \<Longrightarrow> rc_ok (AList.update c e w)"
  unfolding rc_ok_def using set_update_subset [of c e w] by auto

lemma set_delete_subset: "set (AList.delete k al) \<subseteq> set al"
  by (auto simp: AList.delete_eq)

lemma wl_ok_delete: "wl_ok w \<Longrightarrow> wl_ok (AList.delete c w)"
  unfolding wl_ok_def using set_delete_subset [of c w] by (auto simp: distinct_delete)

lemma rc_ok_delete: "rc_ok w \<Longrightarrow> rc_ok (AList.delete c w)"
  unfolding rc_ok_def using set_delete_subset [of c w] by auto

lemma map_of_SomeD_ok: "wl_ok w \<Longrightarrow> map_of w c = Some e \<Longrightarrow> Cid e = c \<and> (c, e) \<in> set w"
  unfolding wl_ok_def by (auto dest: map_of_SomeD)

lemma present_iff: "(c \<in> fst ` set w) = (map_of w c \<noteq> None)"
  by (simp add: map_of_eq_None_iff)

lemma AddEntry_inv:
  assumes "gauge_inv w g" "RefCnt e = 1" "wl_AddEntry e w = (w', r)"
  shows "gauge_inv w' (if r then g + 1 else g)
       \<and> r = (refcount w (Cid e) = 0)
       \<and> refcount w' (Cid e) = refcount w (Cid e) + 1"
proof (cases "map_of w (Cid e)")
  case None
  then have fresh: "Cid e \<notin> fst ` set w" by (simp add: present_iff)
  have w': "w' = w @ [(Cid e, e)]" and r: "r"
    using assms(3) None fresh by (auto simp: wl_AddEntry_def update_fresh)
  have "gauge_inv w' (g + 1)"
    using assms(1,2) fresh unfolding w' gauge_inv_def wl_ok_def rc_ok_def by auto
  moreover have "refcount w' (Cid e) = 1"
    using fresh assms(2) by (simp add: w' refcount_def map_add_def map_of_fresh)
  ultimately show ?thesis using r None by (simp add: refcount_def)
next
  case (Some ex)
  have ex: "Cid ex = Cid e" "(Cid e, ex) \<in> set w"
    using map_of_SomeD_ok [OF _ Some] assms(1) by (auto simp: gauge_inv_def)
  have pos: "1 \<le> RefCnt ex" using ex(2) assms(1) by (auto simp: gauge_inv_def rc_ok_def)
  have w': "w' = AList.update (Cid e) (ex\<lparr>RefCnt := RefCnt ex + 1\<rparr>) w" and r: "\<not> r"
    using assms(3) Some by (auto simp: wl_AddEntry_def)
  have pres: "Cid e \<in> fst ` set w" using Some by (simp add: present_iff)
  have "gauge_inv w' g"
    using assms(1) pos ex(1) unfolding w' gauge_inv_def
    by (simp add: wl_ok_update rc_ok_update length_update_present [OF pres])
  moreover have "refcount w' (Cid e) = RefCnt ex + 1"
    by (simp add: w' refcount_def map_of_update_same)
  ultimately show ?thesis using r Some pos by (simp add: refcount_def)
qed

lemma Remove_inv:
  assumes "gauge_inv w g" "wl_Remove c w = (w', r)"
  shows "gauge_inv w' (if r then g - 1 else g)
       \<and> r = (refcount w c = 1)
       \<and> refcount w' c = (if refcount w c = 0 then 0 else refcount w c - 1)"
proof (cases "map_of w c")
  case None
  then have "w' = w" "\<not> r" using assms(2) by (auto simp: wl_Remove_def)
  then show ?thesis using assms(1) None by (simp add: refcount_def)
next
  case (Some ex)
  have ex: "Cid ex = c" "(c, ex) \<in> set w"
    using map_of_SomeD_ok [OF _ Some] assms(1) by (auto simp: gauge_inv_def)
  have pos: "1 \<le> RefCnt ex" using ex(2) assms(1) by (auto simp: gauge_inv_def rc_ok_def)
  have pres: "c \<in> fst ` set w" using Some by (simp add: present_iff)
  have d: "distinct (map fst w)" using assms(1) by (simp add: gauge_inv_def wl_ok_def)
  show ?thesis
  proof (cases "RefCnt ex = 1")
    case True
    then have w': "w' = AList.delete c w" and r: "r"
      using assms(2) Some by (auto simp: wl_Remove_def)
    have len: "int (length w') = int (length w) - 1"
      using length_delete_present [OF d pres] by (simp add: w')
    have "gauge_inv w' (g - 1)"
      using assms(1) len unfolding gauge_inv_def w' [symmetric]
      by (simp add: w' wl_ok_delete rc_ok_delete)
    moreover have "refcount w' c = 0"
      by (simp add: w' refcount_def map_of_delete_same)
    ultimately show ?thesis using r Some True by (simp add: refcount_def)
  next
    case False
    then have gt: "1 < RefCnt ex" using pos by simp
    then have w': "w' = AList.update c (ex\<lparr>RefCnt := RefCnt ex - 1\<rparr>) w" and r: "\<not> r"
      using assms(2) Some by (auto simp: wl_Remove_def)
    have "gauge_inv w' g"
      using assms(1) gt ex(1) unfolding w' gauge_inv_def
      by (simp add: wl_ok_update rc_ok_update length_update_present [OF pres])
    moreover have "refcount w' c = RefCnt ex - 1"
      by (simp add: w' refcount_def map_of_update_same)
    ultimately show ?thesis using r Some gt by (simp add: refcount_def)
  qed
qed

lemma Run_apply_entry_inv:
  assumes "gauge_inv w g" "RefCnt (Entry e) = 1" "Run_apply_entry e (w, g) = (w', g')"
  shows "gauge_inv w' g'"
proof (cases "Cancel e")
  case True
  obtain w1 r where rm: "wl_Remove (Cid (Entry e)) w = (w1, r)" by (cases "wl_Remove (Cid (Entry e)) w")
  then have "w' = w1" "g' = (if r then g - 1 else g)"
    using assms(3) True by (auto simp: Run_apply_entry_def)
  then show ?thesis using Remove_inv [OF assms(1) rm] by (cases r) simp_all
next
  case False
  obtain w1 r where ad: "wl_AddEntry (Entry e) w = (w1, r)" by (cases "wl_AddEntry (Entry e) w")
  then have "w' = w1" "g' = (if r then g + 1 else g)"
    using assms(3) False by (auto simp: Run_apply_entry_def)
  then show ?thesis using AddEntry_inv [OF assms(1,2) ad] by (cases r) simp_all
qed

lemma fold_Run_apply_entry_inv:
  "gauge_inv w g \<Longrightarrow> \<forall>e \<in> set es. RefCnt (Entry e) = 1 \<Longrightarrow>
   fold Run_apply_entry es (w, g) = (w', g') \<Longrightarrow> gauge_inv w' g'"
proof (induction es arbitrary: w g)
  case Nil
  then show ?case by simp
next
  case (Cons e es)
  obtain w1 g1 where s: "Run_apply_entry e (w, g) = (w1, g1)" by (cases "Run_apply_entry e (w, g)")
  have "gauge_inv w1 g1" using Run_apply_entry_inv [OF Cons.prems(1) _ s] Cons.prems(2) by simp
  then show ?case using Cons.IH [of w1 g1] Cons.prems s by simp
qed

lemma Run_broadcast_wl: "pm_wl (Run_broadcast ws pm) = pm_wl pm"
  and Run_broadcast_gauge: "wantlistGauge (Run_broadcast ws pm) = wantlistGauge pm"
  by (simp_all add: Run_broadcast_def split: prod.splits)

lemma stopPeerHandler_wl: "pm_wl (stopPeerHandler pid pm) = pm_wl pm"
  and stopPeerHandler_gauge: "wantlistGauge (stopPeerHandler pid pm) = wantlistGauge pm"
  by (simp_all add: stopPeerHandler_def Let_def split: option.splits)

lemma startPeerHandler_wl: "pm_wl (snd (startPeerHandler pid pm)) = pm_wl pm"
  and startPeerHandler_gauge: "wantlistGauge (snd (startPeerHandler pid pm)) = wantlistGauge pm"
  by (simp_all add: startPeerHandler_def Let_def split: option.splits prod.splits)

lemma Run_iter_inv:
  assumes "gauge_inv (pm_wl pm) (wantlistGauge pm)" "event_ok ev"
  shows "gauge_inv (pm_wl (Run_iter ev pm)) (wantlistGauge (Run_iter ev pm))"
proof (cases ev)
  case (Incoming ws)
  obtain w g where f: "fold Run_apply_entry (entries ws) (pm_wl pm, wantlistGauge pm) = (w, g)"
    by (cases "fold Run_apply_entry (entries ws) (pm_wl pm, wantlistGauge pm)")
  have "gauge_inv w g"
    using fold_Run_apply_entry_inv [OF assms(1) _ f] assms(2) Incoming by simp
  then show ?thesis
    by (simp add: Incoming Run_incoming_def f Run_broadcast_wl Run_broadcast_gauge)
qed (use assms in \<open>simp_all add: Run_tock_def Let_def stopPeerHandler_wl stopPeerHandler_gauge
      startPeerHandler_wl startPeerHandler_gauge\<close>)

lemma Run_inv:
  "gauge_inv (pm_wl pm) (wantlistGauge pm) \<Longrightarrow> \<forall>ev \<in> set evs. event_ok ev \<Longrightarrow>
   gauge_inv (pm_wl (Run evs pm)) (wantlistGauge (Run evs pm))"
proof (induction evs pm rule: Run.induct)
  case (1 pm)
  then show ?case by simp
next
  case (2 evs pm)
  then show ?case by simp
qed (simp_all add: Run_iter_inv del: Run_iter.simps)

lemma gauge_inv_New: "gauge_inv (pm_wl NewWantManager) (wantlistGauge NewWantManager)"
  by (simp add: NewWantManager_def gauge_inv_def wl_ok_def rc_ok_def)

lemma active_ids: "wl_ok w \<Longrightarrow> card (dom (map_of w)) = length w"
  by (simp add: wl_ok_def dom_map_of_conv_image_fst distinct_card flip: set_map)

text \<open>
  C6. In every state that the loop reaches from a new manager, the gauge is the number
  of ids in the process-wide want list. Applying one more entry of a batch adds one to
  the gauge exactly when the entry is a want that takes the reference count of its id
  from 0 to 1, takes one away exactly when it is a cancel that takes the count from 1 to
  0, and leaves the gauge alone otherwise: a want for an id that is active, a cancel
  that leaves the count positive, a cancel for an absent id.
\<close>

theorem gauge_counts_active_ids:
  assumes evs: "\<forall>ev \<in> set evs. event_ok ev"
    and pm: "pm = Run evs NewWantManager"
    and e: "RefCnt (Entry e) = 1"
    and step: "Run_apply_entry e (pm_wl pm, wantlistGauge pm) = (w', g')"
  shows "wantlistGauge pm = int (card (dom (map_of (pm_wl pm))))
       \<and> g' = int (card (dom (map_of w')))
       \<and> (g' = wantlistGauge pm + 1) =
           (\<not> Cancel e \<and> refcount (pm_wl pm) (Cid (Entry e)) = 0 \<and> refcount w' (Cid (Entry e)) = 1)
       \<and> (g' = wantlistGauge pm - 1) =
           (Cancel e \<and> refcount (pm_wl pm) (Cid (Entry e)) = 1 \<and> refcount w' (Cid (Entry e)) = 0)
       \<and> (g' = wantlistGauge pm) =
           (if Cancel e then refcount (pm_wl pm) (Cid (Entry e)) \<noteq> 1
            else 0 < refcount (pm_wl pm) (Cid (Entry e)))"
proof -
  have inv: "gauge_inv (pm_wl pm) (wantlistGauge pm)"
    unfolding pm by (rule Run_inv [OF gauge_inv_New evs])
  have inv': "gauge_inv w' g'" by (rule Run_apply_entry_inv [OF inv e step])
  have g: "wantlistGauge pm = int (card (dom (map_of (pm_wl pm))))"
    using inv by (simp add: gauge_inv_def active_ids)
  have g': "g' = int (card (dom (map_of w')))"
    using inv' by (simp add: gauge_inv_def active_ids)
  have nonneg: "0 \<le> refcount (pm_wl pm) (Cid (Entry e))"
  proof (cases "map_of (pm_wl pm) (Cid (Entry e))")
    case None
    then show ?thesis by (simp add: refcount_def)
  next
    case (Some ex)
    then have "(Cid (Entry e), ex) \<in> set (pm_wl pm)" by (rule map_of_SomeD)
    then have "1 \<le> RefCnt ex" using inv by (auto simp: gauge_inv_def rc_ok_def)
    then show ?thesis using Some by (simp add: refcount_def)
  qed
  have rest: "(g' = wantlistGauge pm + 1) =
           (\<not> Cancel e \<and> refcount (pm_wl pm) (Cid (Entry e)) = 0 \<and> refcount w' (Cid (Entry e)) = 1)
       \<and> (g' = wantlistGauge pm - 1) =
           (Cancel e \<and> refcount (pm_wl pm) (Cid (Entry e)) = 1 \<and> refcount w' (Cid (Entry e)) = 0)
       \<and> (g' = wantlistGauge pm) =
           (if Cancel e then refcount (pm_wl pm) (Cid (Entry e)) \<noteq> 1
            else 0 < refcount (pm_wl pm) (Cid (Entry e)))"
  proof (cases "Cancel e")
    case True
    obtain w1 r where rm: "wl_Remove (Cid (Entry e)) (pm_wl pm) = (w1, r)"
      by (cases "wl_Remove (Cid (Entry e)) (pm_wl pm)")
    then have eq: "w' = w1" "g' = (if r then wantlistGauge pm - 1 else wantlistGauge pm)"
      using step True by (auto simp: Run_apply_entry_def)
    show ?thesis using Remove_inv [OF inv rm] eq True by (cases r) auto
  next
    case False
    obtain w1 r where ad: "wl_AddEntry (Entry e) (pm_wl pm) = (w1, r)"
      by (cases "wl_AddEntry (Entry e) (pm_wl pm)")
    then have eq: "w' = w1" "g' = (if r then wantlistGauge pm + 1 else wantlistGauge pm)"
      using step False by (auto simp: Run_apply_entry_def)
    show ?thesis using AddEntry_inv [OF inv e ad] eq False nonneg by (cases r) auto
  qed
  show ?thesis using g g' rest by blast
qed

theorem gauge_counts_active_ids_witness:
  "wantlistGauge (Run [Incoming \<lparr>entries = addEntries_entries 2147483647 [5, 5, 6] False, targets = []\<rparr>]
      NewWantManager) = 2
   \<and> Run_apply_entry \<lparr>Cancel = True, Entry = \<lparr>Cid = 5, Priority = 2147483647, RefCnt = 1\<rparr>\<rparr>
       (pm_wl (Run [Incoming \<lparr>entries = addEntries_entries 2147483647 [5, 5, 6] False, targets = []\<rparr>]
          NewWantManager), 2)
     = ([(5, \<lparr>Cid = 5, Priority = 2147483647, RefCnt = 1\<rparr>),
         (6, \<lparr>Cid = 6, Priority = 2147483645, RefCnt = 1\<rparr>)], 2)
   \<and> int (card (dom (map_of [(5 :: cid, \<lparr>Cid = 5, Priority = 2147483647 :: priority, RefCnt = 1\<rparr>),
         (6, \<lparr>Cid = 6, Priority = 2147483645, RefCnt = 1\<rparr>)]))) = 2"
proof -
  let ?evs = "[Incoming \<lparr>entries = addEntries_entries 2147483647 [5, 5, 6] False, targets = []\<rparr>]"
  let ?pm = "Run ?evs NewWantManager"
  let ?e = "\<lparr>Cancel = True, Entry = \<lparr>Cid = 5, Priority = 2147483647, RefCnt = 1\<rparr>\<rparr>"
  let ?w' = "[(5 :: cid, \<lparr>Cid = 5, Priority = 2147483647 :: priority, RefCnt = 1\<rparr>),
         (6, \<lparr>Cid = 6, Priority = 2147483645, RefCnt = 1\<rparr>)]"
  have pmv: "?pm = \<lparr>pm_peers = [],
       pm_wl = [(5, \<lparr>Cid = 5, Priority = 2147483647, RefCnt = 2\<rparr>),
                (6, \<lparr>Cid = 6, Priority = 2147483645, RefCnt = 1\<rparr>)],
       wantlistGauge = 2, pm_trace = []\<rparr>"
    by (simp add: NewWantManager_def Run_incoming_def Run_broadcast_def Run_apply_entry_def
        addEntries_entries_def mk_entry_def wl_AddEntry_def)
  have h1: "\<forall>ev \<in> set ?evs. event_ok ev"
    by (simp add: addEntries_entries_def mk_entry_def)
  have h3: "RefCnt (Entry ?e) = 1" by simp
  have h4: "Run_apply_entry ?e (pm_wl ?pm, wantlistGauge ?pm) = (?w', 2)"
    unfolding pmv by (simp add: Run_apply_entry_def wl_Remove_def)
  show ?thesis
    using gauge_counts_active_ids [OF h1 refl h3 h4] h4 unfolding pmv by simp
qed

section \<open>Disconnect events\<close>

lemma connect_twice_disconnect_twice:
  assumes "map_of (pm_peers pm) pid = None"
  shows "(\<exists>mq. map_of (pm_peers (Run [Connect pid, Connect pid, Disconnect pid] pm)) pid = Some mq
            \<and> mq_refcnt mq = 1)
       \<and> pm_trace (Run [Connect pid, Connect pid, Disconnect pid] pm) = pm_trace pm @ [Spawn pid]
       \<and> map_of (pm_peers (Run [Connect pid, Connect pid, Disconnect pid, Disconnect pid] pm)) pid = None
       \<and> pm_trace (Run [Connect pid, Connect pid, Disconnect pid, Disconnect pid] pm)
           = pm_trace pm @ [Spawn pid, CloseDone pid]"
proof -
  obtain mq where s1: "startPeerHandler pid pm =
       (Some mq, pm\<lparr>pm_peers := AList.update pid mq (pm_peers pm), pm_trace := pm_trace pm @ [Spawn pid]\<rparr>)"
    and r1: "mq_refcnt mq = 1"
    using start_unregistered [OF assms] by blast
  define pm1 where "pm1 = pm\<lparr>pm_peers := AList.update pid mq (pm_peers pm), pm_trace := pm_trace pm @ [Spawn pid]\<rparr>"
  have l1: "map_of (pm_peers pm1) pid = Some mq" by (simp add: pm1_def map_of_update_same)
  define mq2 where "mq2 = mq\<lparr>mq_refcnt := mq_refcnt mq + 1\<rparr>"
  define pm2 where "pm2 = pm1\<lparr>pm_peers := AList.update pid mq2 (pm_peers pm1)\<rparr>"
  have s2: "startPeerHandler pid pm1 = (None, pm2)"
    unfolding pm2_def mq2_def by (rule start_registered [OF l1])
  have l2: "map_of (pm_peers pm2) pid = Some mq2" by (simp add: pm2_def map_of_update_same)
  have r2: "1 < mq_refcnt mq2" by (simp add: mq2_def r1)
  define mq3 where "mq3 = mq2\<lparr>mq_refcnt := mq_refcnt mq2 - 1\<rparr>"
  define pm3 where "pm3 = pm2\<lparr>pm_peers := AList.update pid mq3 (pm_peers pm2)\<rparr>"
  have s3: "stopPeerHandler pid pm2 = pm3"
    unfolding pm3_def mq3_def by (rule stop_keep [OF l2 r2])
  have l3: "map_of (pm_peers pm3) pid = Some mq3" by (simp add: pm3_def map_of_update_same)
  have r3: "mq_refcnt mq3 = 1" by (simp add: mq3_def mq2_def r1)
  have t3: "pm_trace pm3 = pm_trace pm @ [Spawn pid]" by (simp add: pm3_def pm2_def pm1_def)
  have s4: "stopPeerHandler pid pm3 =
      pm3\<lparr>pm_peers := AList.delete pid (pm_peers pm3), pm_trace := pm_trace pm3 @ [CloseDone pid]\<rparr>"
    by (rule stop_teardown [OF l3]) (simp add: r3)
  have run3: "Run [Connect pid, Connect pid, Disconnect pid] pm = pm3"
    by (simp add: s1 pm1_def [symmetric] s2 s3)
  have run4: "Run [Connect pid, Connect pid, Disconnect pid, Disconnect pid] pm =
      pm3\<lparr>pm_peers := AList.delete pid (pm_peers pm3), pm_trace := pm_trace pm3 @ [CloseDone pid]\<rparr>"
    by (simp add: s1 pm1_def [symmetric] s2 s3 s4)
  show ?thesis
    unfolding run3 run4 using l3 r3 t3 by (simp add: map_of_delete_same)
qed

text \<open>
  C4, as amended. A disconnect event for a registered peer takes one from the reference
  count of its registration; while the count stays positive the peer stays registered
  and nothing else happens, and when the count is used up \<open>done\<close> is closed and the
  peer is removed from the registry. Other peers are untouched. So a peer connected by two
  connect events is still registered, with the count 1, after one disconnect event, and
  is torn down by the second. A disconnect event for a peer that is not registered changes
  nothing at all: the state, trace included, is the same, so nothing is logged.
\<close>

theorem stopPeerHandler_disconnect:
  "(map_of (pm_peers pm) pid = None \<longrightarrow> stopPeerHandler pid pm = pm)
   \<and> (map_of (pm_peers pm) pid = Some pq \<and> 1 < mq_refcnt pq \<longrightarrow>
        map_of (pm_peers (stopPeerHandler pid pm)) pid = Some (pq\<lparr>mq_refcnt := mq_refcnt pq - 1\<rparr>)
        \<and> pm_trace (stopPeerHandler pid pm) = pm_trace pm)
   \<and> (map_of (pm_peers pm) pid = Some pq \<and> mq_refcnt pq \<le> 1 \<longrightarrow>
        map_of (pm_peers (stopPeerHandler pid pm)) pid = None
        \<and> pm_trace (stopPeerHandler pid pm) = pm_trace pm @ [CloseDone pid])
   \<and> (q \<noteq> pid \<longrightarrow> map_of (pm_peers (stopPeerHandler pid pm)) q = map_of (pm_peers pm) q)
   \<and> (map_of (pm_peers pm) pid = None \<longrightarrow>
        (\<exists>mq. map_of (pm_peers (Run [Connect pid, Connect pid, Disconnect pid] pm)) pid = Some mq
            \<and> mq_refcnt mq = 1)
        \<and> pm_trace (Run [Connect pid, Connect pid, Disconnect pid] pm) = pm_trace pm @ [Spawn pid]
        \<and> map_of (pm_peers (Run [Connect pid, Connect pid, Disconnect pid, Disconnect pid] pm)) pid = None
        \<and> pm_trace (Run [Connect pid, Connect pid, Disconnect pid, Disconnect pid] pm)
            = pm_trace pm @ [Spawn pid, CloseDone pid])"
proof -
  have a: "map_of (pm_peers pm) pid = None \<longrightarrow> stopPeerHandler pid pm = pm"
    by (simp add: stop_unregistered)
  have b: "map_of (pm_peers pm) pid = Some pq \<and> 1 < mq_refcnt pq \<longrightarrow>
        map_of (pm_peers (stopPeerHandler pid pm)) pid = Some (pq\<lparr>mq_refcnt := mq_refcnt pq - 1\<rparr>)
        \<and> pm_trace (stopPeerHandler pid pm) = pm_trace pm"
    by (simp add: stop_keep map_of_update_same)
  have c: "map_of (pm_peers pm) pid = Some pq \<and> mq_refcnt pq \<le> 1 \<longrightarrow>
        map_of (pm_peers (stopPeerHandler pid pm)) pid = None
        \<and> pm_trace (stopPeerHandler pid pm) = pm_trace pm @ [CloseDone pid]"
    by (simp add: stop_teardown map_of_delete_same)
  have d: "q \<noteq> pid \<longrightarrow> map_of (pm_peers (stopPeerHandler pid pm)) q = map_of (pm_peers pm) q"
    by (simp add: stopPeerHandler_def Let_def map_of_update_other split: option.splits)
  show ?thesis using a b c d connect_twice_disconnect_twice [of pm pid] by blast
qed

text \<open>
  C4 as stated asks for a log line when an unregistered peer is disconnected. The code
  returns at once (its comment leaves the log as a question): on a new manager the
  disconnect of peer 7 leaves the trace empty.
\<close>

theorem stopPeerHandler_unregistered_not_logged:
  "map_of (pm_peers NewWantManager) 7 = None
   \<and> Run_iter (Disconnect 7) NewWantManager = NewWantManager
   \<and> pm_trace (Run_iter (Disconnect 7) NewWantManager) = []
   \<and> (\<forall>lvl txt. Log lvl txt \<notin> set (pm_trace (Run_iter (Disconnect 7) NewWantManager)))"
  by (simp add: NewWantManager_def stopPeerHandler_def)

theorem stopPeerHandler_disconnect_witness:
  "stopPeerHandler 7 NewWantManager = NewWantManager
   \<and> (\<exists>mq. map_of (pm_peers (Run [Connect 7, Connect 7, Disconnect 7] NewWantManager)) 7 = Some mq
          \<and> mq_refcnt mq = 1)
   \<and> pm_trace (Run [Connect 7, Connect 7, Disconnect 7] NewWantManager) = [Spawn 7]
   \<and> map_of (pm_peers (Run [Connect 7, Connect 7, Disconnect 7, Disconnect 7] NewWantManager)) 7 = None
   \<and> pm_trace (Run [Connect 7, Connect 7, Disconnect 7, Disconnect 7] NewWantManager)
       = [Spawn 7, CloseDone 7]"
proof -
  have h: "map_of (pm_peers NewWantManager) 7 = None" by (simp add: NewWantManager_def)
  have t: "pm_trace NewWantManager = []" by (simp add: NewWantManager_def)
  show ?thesis
    using stopPeerHandler_disconnect [of NewWantManager 7 "newMsgQueue 7" 7] h t by simp
qed

section \<open>Forwarding a batch\<close>

lemma map_of_map_snd:
  "map_of (map (\<lambda>kv. (fst kv, f (snd kv))) ps) k = map_option f (map_of ps k)"
  by (induction ps) auto

lemma keys_map_snd: "map fst (map (\<lambda>kv. (fst kv, f (snd kv))) ps) = map fst ps"
  by (induction ps) auto

lemma Run_target_keys:
  "Run_target es t (ps, tr) = (ps', tr') \<Longrightarrow> map fst ps' = map fst ps"
  by (auto simp: Run_target_def update_keys present_iff split: option.splits)

lemma Run_target_lookup:
  "Run_target es t (ps, tr) = (ps', tr') \<Longrightarrow>
   map_of ps' k = (if k = t then map_option (addMessage es) (map_of ps k) else map_of ps k)"
  by (auto simp: Run_target_def update_conv' split: option.splits)

lemma Run_target_trace:
  "Run_target es t (ps, tr) = (ps', tr') \<Longrightarrow>
   tr' = tr @ (if map_of ps t = None
               then [Log Warning ''tried sending wantlist change to non-partner peer''] else [])"
  by (auto simp: Run_target_def split: option.splits)

lemma registered_by_keys:
  "map fst ps' = map fst ps \<Longrightarrow> (map_of ps' k = None) = (map_of ps k = None)"
  by (metis map_of_eq_None_iff set_map)

lemma funpow_option_shift:
  "map_option (f ^^ n) (map_option f x) = map_option (f ^^ Suc n) x"
  by (cases x) (simp_all add: funpow_swap1)

lemma fold_Run_target:
  "fold (Run_target es) ts (ps, tr) = (ps', tr') \<Longrightarrow>
   map fst ps' = map fst ps
   \<and> map_of ps' k = map_option (addMessage es ^^ count_list ts k) (map_of ps k)
   \<and> tr' = tr @ map (\<lambda>t. Log Warning ''tried sending wantlist change to non-partner peer'')
               (filter (\<lambda>t. map_of ps t = None) ts)"
proof (induction ts arbitrary: ps tr)
  case Nil
  then show ?case by (simp add: option.map_ident)
next
  case (Cons t ts)
  obtain ps1 tr1 where s: "Run_target es t (ps, tr) = (ps1, tr1)"
    by (cases "Run_target es t (ps, tr)")
  have f: "fold (Run_target es) ts (ps1, tr1) = (ps', tr')" using Cons.prems s by simp
  note ih = Cons.IH [OF f]
  have keys: "map fst ps1 = map fst ps" by (rule Run_target_keys [OF s])
  have same: "(\<lambda>t. map_of ps1 t = None) = (\<lambda>t. map_of ps t = None)"
    using registered_by_keys [OF keys] by auto
  have k1: "map fst ps' = map fst ps" using ih keys by simp
  have k2: "map_of ps' k = map_option (addMessage es ^^ count_list (t # ts) k) (map_of ps k)"
  proof (cases "k = t")
    case True
    have "map_of ps' k = map_option (addMessage es ^^ count_list ts k) (map_option (addMessage es) (map_of ps k))"
      using ih Run_target_lookup [OF s, of k] True by simp
    then show ?thesis using True by (simp add: funpow_option_shift del: funpow.simps)
  next
    case False
    then show ?thesis using ih Run_target_lookup [OF s, of k] by simp
  qed
  have k3: "tr' = tr @ map (\<lambda>t. Log Warning ''tried sending wantlist change to non-partner peer'')
               (filter (\<lambda>t. map_of ps t = None) (t # ts))"
    using ih Run_target_trace [OF s] unfolding same by simp
  show ?case using k1 k2 k3 by blast
qed

lemma Run_broadcast_targets:
  "(targets ws = [] \<longrightarrow>
      map_of (pm_peers (Run_broadcast ws pm)) pid
        = map_option (addMessage (entries ws)) (map_of (pm_peers pm) pid)
      \<and> pm_trace (Run_broadcast ws pm) = pm_trace pm)
   \<and> (targets ws \<noteq> [] \<longrightarrow>
      map_of (pm_peers (Run_broadcast ws pm)) pid
        = map_option (addMessage (entries ws) ^^ count_list (targets ws) pid) (map_of (pm_peers pm) pid)
      \<and> pm_trace (Run_broadcast ws pm)
        = pm_trace pm @ map (\<lambda>t. Log Warning ''tried sending wantlist change to non-partner peer'')
            (filter (\<lambda>t. map_of (pm_peers pm) t = None) (targets ws)))
   \<and> map fst (pm_peers (Run_broadcast ws pm)) = map fst (pm_peers pm)
   \<and> pm_wl (Run_broadcast ws pm) = pm_wl pm
   \<and> wantlistGauge (Run_broadcast ws pm) = wantlistGauge pm"
proof (cases "targets ws = []")
  case True
  then show ?thesis by (simp add: Run_broadcast_def map_of_map_snd keys_map_snd)
next
  case False
  obtain ps tr where f: "fold (Run_target (entries ws)) (targets ws) (pm_peers pm, pm_trace pm) = (ps, tr)"
    by (cases "fold (Run_target (entries ws)) (targets ws) (pm_peers pm, pm_trace pm)")
  have r: "Run_broadcast ws pm = pm\<lparr>pm_peers := ps, pm_trace := tr\<rparr>"
    using False by (simp add: Run_broadcast_def f)
  show ?thesis using False fold_Run_target [OF f, of pid] by (simp add: r)
qed

lemma addMessage_entry_flag:
  "addMessage_entry e (w, m, b) =
     (case addMessage_entry e (w, m, False) of (w', m', b') \<Rightarrow> (w', m', b \<or> b'))"
  by (simp add: addMessage_entry_def split: prod.splits)

lemma fold_addMessage_entry_flag:
  "fold addMessage_entry es (w, m, b) =
     (case fold addMessage_entry es (w, m, False) of (w', m', b') \<Rightarrow> (w', m', b \<or> b'))"
proof (induction es arbitrary: w m b)
  case Nil
  then show ?case by simp
next
  case (Cons e es)
  obtain w1 m1 b1 where s: "addMessage_entry e (w, m, False) = (w1, m1, b1)"
    by (cases "addMessage_entry e (w, m, False)")
  have sb: "addMessage_entry e (w, m, b) = (w1, m1, b \<or> b1)"
    using addMessage_entry_flag [of e w m b] s by simp
  obtain w2 m2 b2 where f: "fold addMessage_entry es (w1, m1, False) = (w2, m2, b2)"
    by (cases "fold addMessage_entry es (w1, m1, False)")
  have f1: "fold addMessage_entry es (w1, m1, b1) = (w2, m2, b1 \<or> b2)"
    using Cons.IH [of w1 m1 b1] f by simp
  have f2: "fold addMessage_entry es (w1, m1, b \<or> b1) = (w2, m2, (b \<or> b1) \<or> b2)"
    using Cons.IH [of w1 m1 "b \<or> b1"] f by simp
  show ?case by (simp add: s sb f1 f2)
qed

lemma addMessage_Nil: "addMessage [] mq = mq\<lparr>mq_out := Some (pending mq)\<rparr>"
  by (simp add: addMessage_def pending_def)

lemma addMessage_Cons: "addMessage (e # es) mq = addMessage es (addMessage [e] mq)"
proof -
  obtain w1 m1 b1 where s: "addMessage_entry e (mq_wl mq, pending mq, False) = (w1, m1, b1)"
    by (cases "addMessage_entry e (mq_wl mq, pending mq, False)")
  obtain w2 m2 b2 where f: "fold addMessage_entry es (w1, m1, False) = (w2, m2, b2)"
    by (cases "fold addMessage_entry es (w1, m1, False)")
  have f1: "fold addMessage_entry es (w1, m1, b1) = (w2, m2, b1 \<or> b2)"
    using fold_addMessage_entry_flag [of es w1 m1 b1] f by simp
  have one: "addMessage [e] mq = mq\<lparr>mq_out := Some m1, mq_wl := w1, mq_work := (mq_work mq \<or> b1)\<rparr>"
    using s by (simp add: addMessage_def pending_def)
  have lhs: "addMessage (e # es) mq =
      mq\<lparr>mq_out := Some m2, mq_wl := w2, mq_work := (mq_work mq \<or> (b1 \<or> b2))\<rparr>"
    using s f1 by (simp add: addMessage_def pending_def)
  have rhs: "addMessage es (mq\<lparr>mq_out := Some m1, mq_wl := w1, mq_work := (mq_work mq \<or> b1)\<rparr>) =
      mq\<lparr>mq_out := Some m2, mq_wl := w2, mq_work := (mq_work mq \<or> (b1 \<or> b2))\<rparr>"
    using f by (simp add: addMessage_def)
  show ?thesis unfolding lhs one rhs ..
qed

lemma addMessage_want_new:
  assumes "\<not> Cancel e" "map_of (mq_wl mq) (Cid (Entry e)) = None"
  shows "addMessage [e] mq =
     mq\<lparr>mq_out := Some ((pending mq)\<lparr>msg_wantlist :=
             AList.update (Cid (Entry e)) (Priority (Entry e), False) (msg_wantlist (pending mq))\<rparr>),
        mq_wl := AList.update (Cid (Entry e))
             \<lparr>Cid = Cid (Entry e), Priority = Priority (Entry e), RefCnt = 1\<rparr> (mq_wl mq),
        mq_work := True\<rparr>"
  using assms
  by (simp add: addMessage_def addMessage_entry_def wl_Add_def msg_AddEntry_def pending_def Let_def)

lemma addMessage_want_known:
  assumes "\<not> Cancel e" "map_of (mq_wl mq) (Cid (Entry e)) = Some ex"
  shows "addMessage [e] mq =
     mq\<lparr>mq_out := Some (pending mq),
        mq_wl := AList.update (Cid (Entry e)) (ex\<lparr>RefCnt := RefCnt ex + 1\<rparr>) (mq_wl mq)\<rparr>"
  using assms
  by (simp add: addMessage_def addMessage_entry_def wl_Add_def pending_def Let_def)

lemma addMessage_cancel_last:
  assumes "Cancel e" "map_of (mq_wl mq) (Cid (Entry e)) = Some ex" "RefCnt ex \<le> 1"
  shows "addMessage [e] mq =
     mq\<lparr>mq_out := Some ((pending mq)\<lparr>msg_wantlist :=
             AList.update (Cid (Entry e)) (0, True) (msg_wantlist (pending mq))\<rparr>),
        mq_wl := AList.delete (Cid (Entry e)) (mq_wl mq),
        mq_work := True\<rparr>"
  using assms
  by (simp add: addMessage_def addMessage_entry_def wl_Remove_def msg_Cancel_def pending_def Let_def)

lemma addMessage_cancel_more:
  assumes "Cancel e" "map_of (mq_wl mq) (Cid (Entry e)) = Some ex" "1 < RefCnt ex"
  shows "addMessage [e] mq =
     mq\<lparr>mq_out := Some (pending mq),
        mq_wl := AList.update (Cid (Entry e)) (ex\<lparr>RefCnt := RefCnt ex - 1\<rparr>) (mq_wl mq)\<rparr>"
  using assms
  by (simp add: addMessage_def addMessage_entry_def wl_Remove_def pending_def Let_def)

lemma addMessage_cancel_absent:
  assumes "Cancel e" "map_of (mq_wl mq) (Cid (Entry e)) = None"
  shows "addMessage [e] mq = mq\<lparr>mq_out := Some (pending mq)\<rparr>"
  using assms
  by (simp add: addMessage_def addMessage_entry_def wl_Remove_def pending_def Let_def)

text \<open>
  C7, as amended. When the loop forwards a batch: with no targets, \<open>addMessage\<close> is
  applied to the queue of every registered peer, and nothing is logged; with targets, it
  is applied to the queue of each named peer that is registered, once for each time the
  peer is named, the queue of a peer that is not named is left as it is, and for each
  named peer that is not registered one warning is logged and the peer is skipped: it
  stays unregistered. The set of registered peers is the same afterwards, and nothing
  goes back to the caller that submitted the batch. \<open>addMessage\<close> takes the entries
  one after the other, on the pending message of the queue (a new incremental one when
  there is none). A want for an id that the mirror does not hold enters the mirror, is
  put into the pending message with its priority, and signals work. A cancel for an id
  whose count in the mirror is used up by it leaves the mirror, is put into the pending
  message as a cancel, and signals work. Every other entry (a want for an id the mirror
  holds, a cancel that leaves the count positive, a cancel for an absent id) changes at
  most the count in the mirror: nothing is put into the pending message and no work is
  signalled.
\<close>

theorem Run_incoming_forwards_batch:
  "(targets ws = [] \<longrightarrow>
      map_of (pm_peers (Run_iter (Incoming ws) pm)) pid
        = map_option (addMessage (entries ws)) (map_of (pm_peers pm) pid)
      \<and> pm_trace (Run_iter (Incoming ws) pm) = pm_trace pm)
   \<and> (targets ws \<noteq> [] \<longrightarrow>
      map_of (pm_peers (Run_iter (Incoming ws) pm)) pid
        = map_option (addMessage (entries ws) ^^ count_list (targets ws) pid) (map_of (pm_peers pm) pid)
      \<and> pm_trace (Run_iter (Incoming ws) pm)
        = pm_trace pm @ map (\<lambda>t. Log Warning ''tried sending wantlist change to non-partner peer'')
            (filter (\<lambda>t. map_of (pm_peers pm) t = None) (targets ws)))
   \<and> map fst (pm_peers (Run_iter (Incoming ws) pm)) = map fst (pm_peers pm)
   \<and> addMessage [] mq = mq\<lparr>mq_out := Some (pending mq)\<rparr>
   \<and> addMessage (e # es) mq = addMessage es (addMessage [e] mq)
   \<and> (\<not> Cancel e \<and> map_of (mq_wl mq) (Cid (Entry e)) = None \<longrightarrow>
        addMessage [e] mq =
          mq\<lparr>mq_out := Some ((pending mq)\<lparr>msg_wantlist :=
                  AList.update (Cid (Entry e)) (Priority (Entry e), False) (msg_wantlist (pending mq))\<rparr>),
             mq_wl := AList.update (Cid (Entry e))
                  \<lparr>Cid = Cid (Entry e), Priority = Priority (Entry e), RefCnt = 1\<rparr> (mq_wl mq),
             mq_work := True\<rparr>)
   \<and> (\<not> Cancel e \<and> map_of (mq_wl mq) (Cid (Entry e)) = Some ex \<longrightarrow>
        addMessage [e] mq =
          mq\<lparr>mq_out := Some (pending mq),
             mq_wl := AList.update (Cid (Entry e)) (ex\<lparr>RefCnt := RefCnt ex + 1\<rparr>) (mq_wl mq)\<rparr>)
   \<and> (Cancel e \<and> map_of (mq_wl mq) (Cid (Entry e)) = Some ex \<and> RefCnt ex \<le> 1 \<longrightarrow>
        addMessage [e] mq =
          mq\<lparr>mq_out := Some ((pending mq)\<lparr>msg_wantlist :=
                  AList.update (Cid (Entry e)) (0, True) (msg_wantlist (pending mq))\<rparr>),
             mq_wl := AList.delete (Cid (Entry e)) (mq_wl mq),
             mq_work := True\<rparr>)
   \<and> (Cancel e \<and> map_of (mq_wl mq) (Cid (Entry e)) = Some ex \<and> 1 < RefCnt ex \<longrightarrow>
        addMessage [e] mq =
          mq\<lparr>mq_out := Some (pending mq),
             mq_wl := AList.update (Cid (Entry e)) (ex\<lparr>RefCnt := RefCnt ex - 1\<rparr>) (mq_wl mq)\<rparr>)
   \<and> (Cancel e \<and> map_of (mq_wl mq) (Cid (Entry e)) = None \<longrightarrow>
        addMessage [e] mq = mq\<lparr>mq_out := Some (pending mq)\<rparr>)"
proof -
  obtain w g where f: "fold Run_apply_entry (entries ws) (pm_wl pm, wantlistGauge pm) = (w, g)"
    by (cases "fold Run_apply_entry (entries ws) (pm_wl pm, wantlistGauge pm)")
  let ?pm = "pm\<lparr>pm_wl := w, wantlistGauge := g\<rparr>"
  have r: "Run_iter (Incoming ws) pm = Run_broadcast ws ?pm"
    by (simp add: Run_incoming_def f)
  have p: "pm_peers ?pm = pm_peers pm" "pm_trace ?pm = pm_trace pm" by simp_all
  note rt = Run_broadcast_targets [of ws ?pm pid, unfolded p, folded r]
  have a: "targets ws = [] \<longrightarrow>
      map_of (pm_peers (Run_iter (Incoming ws) pm)) pid
        = map_option (addMessage (entries ws)) (map_of (pm_peers pm) pid)
      \<and> pm_trace (Run_iter (Incoming ws) pm) = pm_trace pm"
    using rt by blast
  have b: "targets ws \<noteq> [] \<longrightarrow>
      map_of (pm_peers (Run_iter (Incoming ws) pm)) pid
        = map_option (addMessage (entries ws) ^^ count_list (targets ws) pid) (map_of (pm_peers pm) pid)
      \<and> pm_trace (Run_iter (Incoming ws) pm)
        = pm_trace pm @ map (\<lambda>t. Log Warning ''tried sending wantlist change to non-partner peer'')
            (filter (\<lambda>t. map_of (pm_peers pm) t = None) (targets ws))"
    using rt by blast
  have c: "map fst (pm_peers (Run_iter (Incoming ws) pm)) = map fst (pm_peers pm)"
    using rt by blast
  note d = addMessage_Nil [of mq] addMessage_Cons [of e es mq]
  have e1: "\<not> Cancel e \<and> map_of (mq_wl mq) (Cid (Entry e)) = None \<longrightarrow>
        addMessage [e] mq =
          mq\<lparr>mq_out := Some ((pending mq)\<lparr>msg_wantlist :=
                  AList.update (Cid (Entry e)) (Priority (Entry e), False) (msg_wantlist (pending mq))\<rparr>),
             mq_wl := AList.update (Cid (Entry e))
                  \<lparr>Cid = Cid (Entry e), Priority = Priority (Entry e), RefCnt = 1\<rparr> (mq_wl mq),
             mq_work := True\<rparr>"
    using addMessage_want_new [of e mq] by (intro impI) (elim conjE)
  have e2: "\<not> Cancel e \<and> map_of (mq_wl mq) (Cid (Entry e)) = Some ex \<longrightarrow>
        addMessage [e] mq =
          mq\<lparr>mq_out := Some (pending mq),
             mq_wl := AList.update (Cid (Entry e)) (ex\<lparr>RefCnt := RefCnt ex + 1\<rparr>) (mq_wl mq)\<rparr>"
    using addMessage_want_known [of e mq ex] by (intro impI) (elim conjE)
  have e3: "Cancel e \<and> map_of (mq_wl mq) (Cid (Entry e)) = Some ex \<and> RefCnt ex \<le> 1 \<longrightarrow>
        addMessage [e] mq =
          mq\<lparr>mq_out := Some ((pending mq)\<lparr>msg_wantlist :=
                  AList.update (Cid (Entry e)) (0, True) (msg_wantlist (pending mq))\<rparr>),
             mq_wl := AList.delete (Cid (Entry e)) (mq_wl mq),
             mq_work := True\<rparr>"
    using addMessage_cancel_last [of e mq ex] by (intro impI) (elim conjE)
  have e4: "Cancel e \<and> map_of (mq_wl mq) (Cid (Entry e)) = Some ex \<and> 1 < RefCnt ex \<longrightarrow>
        addMessage [e] mq =
          mq\<lparr>mq_out := Some (pending mq),
             mq_wl := AList.update (Cid (Entry e)) (ex\<lparr>RefCnt := RefCnt ex - 1\<rparr>) (mq_wl mq)\<rparr>"
    using addMessage_cancel_more [of e mq ex] by (intro impI) (elim conjE)
  have e5: "Cancel e \<and> map_of (mq_wl mq) (Cid (Entry e)) = None \<longrightarrow>
        addMessage [e] mq = mq\<lparr>mq_out := Some (pending mq)\<rparr>"
    using addMessage_cancel_absent [of e mq] by (intro impI) (elim conjE)
  show ?thesis using a b c d e1 e2 e3 e4 e5 by (intro conjI)
qed

text \<open>
  C7 as stated has the batch added to the queue of every registered peer. In the state
  \<open>pm_flushed\<close>, where peer 1 has been told of the id 5, a second batch of WantBlocks
  for the id 5 leaves the pending message of peer 1 empty and signals no work: only the
  count in the mirror goes up.
\<close>

theorem Run_incoming_repeated_want_not_queued:
  "targets want5 = []
   \<and> map_of (pm_peers pm_flushed) 1 = Some mq_flushed
   \<and> entries want5 = [\<lparr>Cancel = False, Entry = \<lparr>Cid = 5, Priority = 2147483647, RefCnt = 1\<rparr>\<rparr>]
   \<and> map_of (pm_peers (Run_iter (Incoming want5) pm_flushed)) 1 =
       Some (mq_flushed\<lparr>mq_out := Some \<lparr>full = False, msg_wantlist = [], msg_blocks = []\<rparr>,
                         mq_wl := [(5, \<lparr>Cid = 5, Priority = 2147483647, RefCnt = 2\<rparr>)]\<rparr>)
   \<and> \<not> mq_work (mq_flushed\<lparr>mq_out := Some \<lparr>full = False, msg_wantlist = [], msg_blocks = []\<rparr>,
                         mq_wl := [(5, \<lparr>Cid = 5, Priority = 2147483647, RefCnt = 2\<rparr>)]\<rparr>)"
  by (simp add: want5_def pm_flushed_def mq_flushed_def Run_incoming_def Run_broadcast_def
      Run_apply_entry_def wl_AddEntry_def addEntries_entries_def mk_entry_def addMessage_def
      addMessage_entry_def wl_Add_def msg_New_def Let_def)

theorem Run_incoming_forwards_batch_witness:
  "map_of (pm_peers (Run_iter (Incoming (want5\<lparr>targets := [2, 3]\<rparr>)) pm_two_peers)) 1
     = Some (newMsgQueue 1)
   \<and> map_of (pm_peers (Run_iter (Incoming (want5\<lparr>targets := [2, 3]\<rparr>)) pm_two_peers)) 2
     = Some ((newMsgQueue 2)
         \<lparr>mq_out := Some \<lparr>full = False, msg_wantlist = [(5, 2147483647, False)], msg_blocks = []\<rparr>,
          mq_wl := [(5, \<lparr>Cid = 5, Priority = 2147483647, RefCnt = 1\<rparr>)],
          mq_work := True\<rparr>)
   \<and> map_of (pm_peers (Run_iter (Incoming (want5\<lparr>targets := [2, 3]\<rparr>)) pm_two_peers)) 3 = None
   \<and> pm_trace (Run_iter (Incoming (want5\<lparr>targets := [2, 3]\<rparr>)) pm_two_peers)
     = [Log Warning ''tried sending wantlist change to non-partner peer'']
   \<and> map_of (pm_peers (Run_iter (Incoming want5) pm_two_peers)) 1
     = Some ((newMsgQueue 1)
         \<lparr>mq_out := Some \<lparr>full = False, msg_wantlist = [(5, 2147483647, False)], msg_blocks = []\<rparr>,
          mq_wl := [(5, \<lparr>Cid = 5, Priority = 2147483647, RefCnt = 1\<rparr>)],
          mq_work := True\<rparr>)
   \<and> pm_trace (Run_iter (Incoming want5) pm_two_peers) = []"
proof -
  let ?ws = "want5\<lparr>targets := [2, 3]\<rparr>"
  let ?e = "\<lparr>Cancel = False, Entry = \<lparr>Cid = 5, Priority = 2147483647, RefCnt = 1\<rparr>\<rparr>"
  have t: "targets ?ws \<noteq> []" "targets ?ws = [2, 3]" "entries ?ws = [?e]"
    by (simp_all add: want5_def addEntries_entries_def mk_entry_def)
  have b: "targets want5 = []" "entries want5 = [?e]"
    by (simp_all add: want5_def addEntries_entries_def mk_entry_def)
  have l: "map_of (pm_peers pm_two_peers) 1 = Some (newMsgQueue 1)"
    "map_of (pm_peers pm_two_peers) 2 = Some (newMsgQueue 2)"
    "map_of (pm_peers pm_two_peers) 3 = None" "pm_trace pm_two_peers = []"
    by (simp_all add: pm_two_peers_def)
  have n: "\<not> Cancel ?e \<and> map_of (mq_wl (newMsgQueue 1)) (Cid (Entry ?e)) = None"
    "\<not> Cancel ?e \<and> map_of (mq_wl (newMsgQueue 2)) (Cid (Entry ?e)) = None"
    by (simp_all add: newMsgQueue_def)
  have pe: "pending (newMsgQueue 1) = \<lparr>full = False, msg_wantlist = [], msg_blocks = []\<rparr>"
    "pending (newMsgQueue 2) = \<lparr>full = False, msg_wantlist = [], msg_blocks = []\<rparr>"
    by (simp_all add: pending_def newMsgQueue_def msg_New_def)
  have w: "mq_wl (newMsgQueue 1) = []" "mq_wl (newMsgQueue 2) = []"
    by (simp_all add: newMsgQueue_def)
  note th = Run_incoming_forwards_batch
  have a1: "addMessage [?e] (newMsgQueue 1) = (newMsgQueue 1)
         \<lparr>mq_out := Some \<lparr>full = False, msg_wantlist = [(5, 2147483647, False)], msg_blocks = []\<rparr>,
          mq_wl := [(5, \<lparr>Cid = 5, Priority = 2147483647, RefCnt = 1\<rparr>)],
          mq_work := True\<rparr>"
    using th [where e = ?e and mq = "newMsgQueue 1", THEN conjunct2, THEN conjunct2,
        THEN conjunct2, THEN conjunct2, THEN conjunct2, THEN conjunct1, rule_format, OF n(1),
        unfolded pe w]
    by simp
  have a2: "addMessage [?e] (newMsgQueue 2) = (newMsgQueue 2)
         \<lparr>mq_out := Some \<lparr>full = False, msg_wantlist = [(5, 2147483647, False)], msg_blocks = []\<rparr>,
          mq_wl := [(5, \<lparr>Cid = 5, Priority = 2147483647, RefCnt = 1\<rparr>)],
          mq_work := True\<rparr>"
    using th [where e = ?e and mq = "newMsgQueue 2", THEN conjunct2, THEN conjunct2,
        THEN conjunct2, THEN conjunct2, THEN conjunct2, THEN conjunct1, rule_format, OF n(2),
        unfolded pe w]
    by simp
  show ?thesis
    using th [where ws = ?ws and pm = pm_two_peers and pid = 1, THEN conjunct2, THEN conjunct1]
      th [where ws = ?ws and pm = pm_two_peers and pid = 2, THEN conjunct2, THEN conjunct1]
      th [where ws = ?ws and pm = pm_two_peers and pid = 3, THEN conjunct2, THEN conjunct1]
      th [where ws = want5 and pm = pm_two_peers and pid = 1, THEN conjunct1]
    unfolding t(2,3) b using l a1 a2 by (simp del: Run_iter.simps)
qed

section \<open>The retry loop of doWork\<close>

lemma sendLoop_sent:
  assumes "mq_sender mq = Some sd" "net_SendMsg net (n_send s) = None"
  shows "sendLoop net wlm (mq, s) =
     Some (Inr (mq, s\<lparr>n_send := n_send s + 1, io_trace := io_trace s @ [SendMsg sd wlm]\<rparr>))"
  using assms by (subst sendLoop.simps) (simp add: Let_def)

lemma sendLoop_retry_explicit:
  assumes "mq_sender mq = Some sd" "net_SendMsg net (n_send s) \<noteq> None"
    and "net_select net (n_select s) = TimerFired" "net_ConnectTo net (n_connect s) = None"
    and "net_NewMessageSender net (n_newsender s) = Inr sd1"
  shows "sendLoop net wlm (mq, s) =
     sendLoop net wlm
       (mq\<lparr>mq_sender := Some sd1\<rparr>,
        s\<lparr>n_send := Suc (n_send s), n_select := Suc (n_select s),
          n_connect := Suc (n_connect s), n_newsender := Suc (n_newsender s),
          io_trace := io_trace s @ retry_round (mq_p mq) sd wlm\<rparr>)"
  using assms
  by (subst sendLoop.simps) (auto simp: Let_def openSender_def retry_round_def split: option.splits)

lemma sendLoop_wait_ends:
  assumes "mq_sender mq = Some sd" "net_SendMsg net (n_send s) \<noteq> None"
    and "net_select net (n_select s) \<noteq> TimerFired"
  shows "sendLoop net wlm (mq, s) =
     Some (Inr (mq\<lparr>mq_sender := None\<rparr>,
        s\<lparr>n_send := n_send s + 1, n_select := n_select s + 1,
          io_trace := io_trace s @
            [SendMsg sd wlm, Log Info ''bitswap send error'', CloseSender sd]\<rparr>))"
  using assms
  by (subst sendLoop.simps) (auto simp: Let_def split: option.splits wait_result.splits)

lemma sendLoop_connect_fails:
  assumes "mq_sender mq = Some sd" "net_SendMsg net (n_send s) \<noteq> None"
    and "net_select net (n_select s) = TimerFired" "net_ConnectTo net (n_connect s) \<noteq> None"
  shows "sendLoop net wlm (mq, s) =
     Some (Inr (mq\<lparr>mq_sender := None\<rparr>,
        s\<lparr>n_send := n_send s + 1, n_select := n_select s + 1, n_connect := n_connect s + 1,
          io_trace := io_trace s @
            [SendMsg sd wlm, Log Info ''bitswap send error'', CloseSender sd,
             Log Warning ''SendMsg errored but neither done nor context.Done() were set'',
             ConnectTo (mq_p mq),
             Log Error ''couldnt open sender again after SendMsg failed'']\<rparr>))"
  using assms
  by (subst sendLoop.simps) (auto simp: Let_def openSender_def split: option.splits)

lemma sendLoop_newsender_fails:
  assumes "mq_sender mq = Some sd" "net_SendMsg net (n_send s) \<noteq> None"
    and "net_select net (n_select s) = TimerFired" "net_ConnectTo net (n_connect s) = None"
    and "isl (net_NewMessageSender net (n_newsender s))"
  shows "sendLoop net wlm (mq, s) =
     Some (Inr (mq\<lparr>mq_sender := None\<rparr>,
        s\<lparr>n_send := n_send s + 1, n_select := n_select s + 1, n_connect := n_connect s + 1,
          n_newsender := n_newsender s + 1,
          io_trace := io_trace s @
            [SendMsg sd wlm, Log Info ''bitswap send error'', CloseSender sd,
             Log Warning ''SendMsg errored but neither done nor context.Done() were set'',
             ConnectTo (mq_p mq), NewMessageSender (mq_p mq),
             Log Error ''couldnt open sender again after SendMsg failed'']\<rparr>))"
  using assms
  by (subst sendLoop.simps) (auto simp: Let_def openSender_def split: option.splits sum.splits)

lemma rounds_trace_Suc:
  "rounds_trace net s0 pid sd0 wlm (Suc n) =
     rounds_trace net s0 pid sd0 wlm n @ retry_round pid (sender_at net s0 sd0 n) wlm"
  by (simp add: rounds_trace_def)

lemma after_rounds_0: "after_rounds net s0 pid sd0 wlm 0 = s0"
  by (simp add: after_rounds_def rounds_trace_def)

lemma after_rounds_counters:
  "n_send (after_rounds net s0 pid sd0 wlm n) = n_send s0 + n"
  "n_select (after_rounds net s0 pid sd0 wlm n) = n_select s0 + n"
  "n_connect (after_rounds net s0 pid sd0 wlm n) = n_connect s0 + n"
  "n_newsender (after_rounds net s0 pid sd0 wlm n) = n_newsender s0 + n"
  "io_trace (after_rounds net s0 pid sd0 wlm n) = io_trace s0 @ rounds_trace net s0 pid sd0 wlm n"
  by (simp_all add: after_rounds_def)

lemma sendLoop_rounds:
  assumes "mq_sender mq = Some sd0"
    and "\<forall>k<n. net_SendMsg net (n_send s0 + k) \<noteq> None \<and> retry_ok net s0 k"
  shows "sendLoop net wlm (mq, s0) =
     sendLoop net wlm
       (mq\<lparr>mq_sender := Some (sender_at net s0 sd0 n)\<rparr>, after_rounds net s0 (mq_p mq) sd0 wlm n)"
  using assms(2)
proof (induction n)
  case 0
  have "mq\<lparr>mq_sender := Some sd0\<rparr> = mq" using assms(1) by simp
  then show ?case by (simp add: after_rounds_0 sender_at_def)
next
  case (Suc n)
  let ?mq = "mq\<lparr>mq_sender := Some (sender_at net s0 sd0 n)\<rparr>"
  let ?s = "after_rounds net s0 (mq_p mq) sd0 wlm n"
  have ih: "sendLoop net wlm (mq, s0) = sendLoop net wlm (?mq, ?s)"
    using Suc by simp
  have f: "net_SendMsg net (n_send s0 + n) \<noteq> None" and r: "retry_ok net s0 n"
    using Suc.prems by simp_all
  obtain sd1 where n: "net_NewMessageSender net (n_newsender s0 + n) = Inr sd1"
    using r by (cases "net_NewMessageSender net (n_newsender s0 + n)") (simp_all add: retry_ok_def)
  have sa: "sender_at net s0 sd0 (Suc n) = sd1" by (simp add: sender_at_def n)
  have h1: "mq_sender ?mq = Some (sender_at net s0 sd0 n)" by simp
  have h2: "net_SendMsg net (n_send ?s) \<noteq> None" using f by (simp add: after_rounds_counters)
  have h3: "net_select net (n_select ?s) = TimerFired"
    using r by (simp add: after_rounds_counters retry_ok_def)
  have h4: "net_ConnectTo net (n_connect ?s) = None"
    using r by (simp add: after_rounds_counters retry_ok_def)
  have h5: "net_NewMessageSender net (n_newsender ?s) = Inr sd1"
    using n by (simp add: after_rounds_counters)
  have step: "sendLoop net wlm (?mq, ?s) =
      sendLoop net wlm (mq\<lparr>mq_sender := Some sd1\<rparr>, after_rounds net s0 (mq_p mq) sd0 wlm (Suc n))"
    unfolding sendLoop_retry_explicit [OF h1 h2 h3 h4 h5]
    by (simp add: after_rounds_def rounds_trace_Suc)
  show ?case unfolding ih step sa ..
qed

lemma doWork_start:
  assumes out: "mq_out mq = Some wlm" "\<not> msg_Empty wlm"
    and start: "mq_sender mq = Some sd0 \<and> s0 = s
       \<or> mq_sender mq = None \<and> net_ConnectTo net (n_connect s) = None
         \<and> net_NewMessageSender net (n_newsender s) = Inr sd0
         \<and> s0 = s\<lparr>n_connect := n_connect s + 1, n_newsender := n_newsender s + 1,
                   io_trace := io_trace s @ [ConnectTo (mq_p mq), NewMessageSender (mq_p mq)]\<rparr>"
  shows "doWork net (mq, s) = sendLoop net wlm (mq\<lparr>mq_out := None, mq_sender := Some sd0\<rparr>, s0)"
  using start
proof (elim disjE conjE)
  assume a: "mq_sender mq = Some sd0" "s0 = s"
  have e: "mq\<lparr>mq_out := None, mq_sender := Some sd0\<rparr> = mq\<lparr>mq_out := None\<rparr>"
    using a(1) by simp
  show ?thesis unfolding e using a out by (simp add: doWork_def)
next
  assume a: "mq_sender mq = None" "net_ConnectTo net (n_connect s) = None"
    "net_NewMessageSender net (n_newsender s) = Inr sd0"
    "s0 = s\<lparr>n_connect := n_connect s + 1, n_newsender := n_newsender s + 1,
                   io_trace := io_trace s @ [ConnectTo (mq_p mq), NewMessageSender (mq_p mq)]\<rparr>"
  have e: "mq\<lparr>mq_sender := Some sd0, mq_out := None\<rparr> = mq\<lparr>mq_out := None, mq_sender := Some sd0\<rparr>"
    by simp
  have "doWork net (mq, s) = sendLoop net wlm (mq\<lparr>mq_sender := Some sd0, mq_out := None\<rparr>, s0)"
    using a out by (simp add: doWork_def openSender_def Let_def)
  then show ?thesis unfolding e .
qed

lemma doWork_cycle:
  assumes out: "mq_out mq = Some wlm" "\<not> msg_Empty wlm"
    and start: "mq_sender mq = Some sd0 \<and> s0 = s
       \<or> mq_sender mq = None \<and> net_ConnectTo net (n_connect s) = None
         \<and> net_NewMessageSender net (n_newsender s) = Inr sd0
         \<and> s0 = s\<lparr>n_connect := n_connect s + 1, n_newsender := n_newsender s + 1,
                   io_trace := io_trace s @ [ConnectTo (mq_p mq), NewMessageSender (mq_p mq)]\<rparr>"
    and fails: "\<forall>k<n. net_SendMsg net (n_send s0 + k) \<noteq> None \<and> retry_ok net s0 k"
    and sn: "sn = s0\<lparr>n_send := n_send s0 + n + 1, n_select := n_select s0 + n,
                     n_connect := n_connect s0 + n, n_newsender := n_newsender s0 + n,
                     io_trace := io_trace s0 @ rounds_trace net s0 (mq_p mq) sd0 wlm n
                       @ [SendMsg (sender_at net s0 sd0 n) wlm]\<rparr>"
    and sc: "sc = sn\<lparr>n_select := n_select sn + 1,
                     io_trace := io_trace sn @
                       [Log Info ''bitswap send error'', CloseSender (sender_at net s0 sd0 n)]\<rparr>"
  shows "net_SendMsg net (n_send s0 + n) = None \<Longrightarrow>
           doWork net (mq, s) =
             Some (Inr (mq\<lparr>mq_out := None, mq_sender := Some (sender_at net s0 sd0 n)\<rparr>, sn))"
    and "net_SendMsg net (n_send s0 + n) \<noteq> None \<Longrightarrow>
         net_select net (n_select s0 + n) \<noteq> TimerFired \<Longrightarrow>
           doWork net (mq, s) = Some (Inr (mq\<lparr>mq_out := None, mq_sender := None\<rparr>, sc))"
    and "net_SendMsg net (n_send s0 + n) \<noteq> None \<Longrightarrow>
         net_select net (n_select s0 + n) = TimerFired \<Longrightarrow>
         net_ConnectTo net (n_connect s0 + n) \<noteq> None \<Longrightarrow>
           doWork net (mq, s) =
             Some (Inr (mq\<lparr>mq_out := None, mq_sender := None\<rparr>,
               sc\<lparr>n_connect := n_connect sc + 1,
                  io_trace := io_trace sc @
                    [Log Warning ''SendMsg errored but neither done nor context.Done() were set'',
                     ConnectTo (mq_p mq),
                     Log Error ''couldnt open sender again after SendMsg failed'']\<rparr>))"
    and "net_SendMsg net (n_send s0 + n) \<noteq> None \<Longrightarrow>
         net_select net (n_select s0 + n) = TimerFired \<Longrightarrow>
         net_ConnectTo net (n_connect s0 + n) = None \<Longrightarrow>
         isl (net_NewMessageSender net (n_newsender s0 + n)) \<Longrightarrow>
           doWork net (mq, s) =
             Some (Inr (mq\<lparr>mq_out := None, mq_sender := None\<rparr>,
               sc\<lparr>n_connect := n_connect sc + 1, n_newsender := n_newsender sc + 1,
                  io_trace := io_trace sc @
                    [Log Warning ''SendMsg errored but neither done nor context.Done() were set'',
                     ConnectTo (mq_p mq), NewMessageSender (mq_p mq),
                     Log Error ''couldnt open sender again after SendMsg failed'']\<rparr>))"
proof -
  let ?mq0 = "mq\<lparr>mq_out := None, mq_sender := Some sd0\<rparr>"
  let ?mqn = "?mq0\<lparr>mq_sender := Some (sender_at net s0 sd0 n)\<rparr>"
  let ?s = "after_rounds net s0 (mq_p mq) sd0 wlm n"
  have h0: "mq_sender ?mq0 = Some sd0" by simp
  have dw: "doWork net (mq, s) = sendLoop net wlm (?mqn, ?s)"
    unfolding doWork_start [OF out start] using sendLoop_rounds [OF h0 fails, of wlm] by simp
  have h1: "mq_sender ?mqn = Some (sender_at net s0 sd0 n)" by simp
  note c = after_rounds_counters [of net s0 "mq_p mq" sd0 wlm n]
  {
    assume a: "net_SendMsg net (n_send s0 + n) = None"
    then have "net_SendMsg net (n_send ?s) = None" by (simp add: c)
    from sendLoop_sent [OF h1 this]
    show "doWork net (mq, s) =
             Some (Inr (mq\<lparr>mq_out := None, mq_sender := Some (sender_at net s0 sd0 n)\<rparr>, sn))"
      unfolding dw sn by (simp add: after_rounds_def)
  }
  {
    assume a: "net_SendMsg net (n_send s0 + n) \<noteq> None"
      and b: "net_select net (n_select s0 + n) \<noteq> TimerFired"
    have a': "net_SendMsg net (n_send ?s) \<noteq> None" using a by (simp add: c)
    have b': "net_select net (n_select ?s) \<noteq> TimerFired" using b by (simp add: c)
    from sendLoop_wait_ends [OF h1 a' b']
    show "doWork net (mq, s) = Some (Inr (mq\<lparr>mq_out := None, mq_sender := None\<rparr>, sc))"
      unfolding dw sc sn by (simp add: after_rounds_def)
  }
  {
    assume a: "net_SendMsg net (n_send s0 + n) \<noteq> None"
      and b: "net_select net (n_select s0 + n) = TimerFired"
      and d: "net_ConnectTo net (n_connect s0 + n) \<noteq> None"
    have a': "net_SendMsg net (n_send ?s) \<noteq> None" using a by (simp add: c)
    have b': "net_select net (n_select ?s) = TimerFired" using b by (simp add: c)
    have d': "net_ConnectTo net (n_connect ?s) \<noteq> None" using d by (simp add: c)
    from sendLoop_connect_fails [OF h1 a' b' d']
    show "doWork net (mq, s) =
             Some (Inr (mq\<lparr>mq_out := None, mq_sender := None\<rparr>,
               sc\<lparr>n_connect := n_connect sc + 1,
                  io_trace := io_trace sc @
                    [Log Warning ''SendMsg errored but neither done nor context.Done() were set'',
                     ConnectTo (mq_p mq),
                     Log Error ''couldnt open sender again after SendMsg failed'']\<rparr>))"
      unfolding dw sc sn by (simp add: after_rounds_def)
  }
  {
    assume a: "net_SendMsg net (n_send s0 + n) \<noteq> None"
      and b: "net_select net (n_select s0 + n) = TimerFired"
      and d: "net_ConnectTo net (n_connect s0 + n) = None"
      and e: "isl (net_NewMessageSender net (n_newsender s0 + n))"
    have a': "net_SendMsg net (n_send ?s) \<noteq> None" using a by (simp add: c)
    have b': "net_select net (n_select ?s) = TimerFired" using b by (simp add: c)
    have d': "net_ConnectTo net (n_connect ?s) = None" using d by (simp add: c)
    have e': "isl (net_NewMessageSender net (n_newsender ?s))" using e by (simp add: c)
    from sendLoop_newsender_fails [OF h1 a' b' d' e']
    show "doWork net (mq, s) =
             Some (Inr (mq\<lparr>mq_out := None, mq_sender := None\<rparr>,
               sc\<lparr>n_connect := n_connect sc + 1, n_newsender := n_newsender sc + 1,
                  io_trace := io_trace sc @
                    [Log Warning ''SendMsg errored but neither done nor context.Done() were set'',
                     ConnectTo (mq_p mq), NewMessageSender (mq_p mq),
                     Log Error ''couldnt open sender again after SendMsg failed'']\<rparr>))"
      unfolding dw sc sn by (simp add: after_rounds_def)
  }
qed

text \<open>
  C1, as amended. A queue has a pending message that is not empty, and its sender is
  open or is opened at the start of \<open>doWork\<close> (as for a new queue); \<open>s0\<close> is the
  state once the sender is there and \<open>sd0\<close> that sender. The first \<open>n\<close>
  transmissions fail, and after each of them the timer fires and the sender is opened
  again. Then every failed transmission is followed by the closing of the sender it
  used, and the next transmission sends the same message on the sender just opened.
  What happens at transmission \<open>n\<close> decides the cycle, for every \<open>n\<close>, not only
  for \<open>n \<le> 1\<close>. If it succeeds, the message is delivered and the sender stays open.
  If it fails and \<open>done\<close> or the context ends the wait, the sender is closed, the
  message is lost, and the pipeline returns when its loop next takes \<open>done\<close> or the
  context. If it fails and the sender cannot be opened again (\<open>ConnectTo\<close> or
  \<open>NewMessageSender\<close> fails), the sender is closed, the message is lost and not put
  back, and the loop of the pipeline goes on with its next events. In the first and the
  last two cases \<open>runQueue\<close> goes on after the cycle with the events that follow.
\<close>

theorem doWork_resends_until_sent_or_reopen_fails:
  assumes out: "mq_out mq = Some wlm" "\<not> msg_Empty wlm"
    and start: "mq_sender mq = Some sd0 \<and> s0 = s
       \<or> mq_sender mq = None \<and> net_ConnectTo net (n_connect s) = None
         \<and> net_NewMessageSender net (n_newsender s) = Inr sd0
         \<and> s0 = s\<lparr>n_connect := n_connect s + 1, n_newsender := n_newsender s + 1,
                   io_trace := io_trace s @ [ConnectTo (mq_p mq), NewMessageSender (mq_p mq)]\<rparr>"
    and fails: "\<forall>k<n. net_SendMsg net (n_send s0 + k) \<noteq> None \<and> retry_ok net s0 k"
    and sn: "sn = s0\<lparr>n_send := n_send s0 + n + 1, n_select := n_select s0 + n,
                     n_connect := n_connect s0 + n, n_newsender := n_newsender s0 + n,
                     io_trace := io_trace s0 @ rounds_trace net s0 (mq_p mq) sd0 wlm n
                       @ [SendMsg (sender_at net s0 sd0 n) wlm]\<rparr>"
    and sc: "sc = sn\<lparr>n_select := n_select sn + 1,
                     io_trace := io_trace sn @
                       [Log Info ''bitswap send error'', CloseSender (sender_at net s0 sd0 n)]\<rparr>"
  shows
   "(net_SendMsg net (n_send s0 + n) = None \<longrightarrow>
       doWork net (mq, s) =
         Some (Inr (mq\<lparr>mq_out := None, mq_sender := Some (sender_at net s0 sd0 n)\<rparr>, sn))
       \<and> runQueue net (WorkSignal # evs) (mq, s) =
           runQueue net evs
             (mq\<lparr>mq_work := False, mq_out := None, mq_sender := Some (sender_at net s0 sd0 n)\<rparr>, sn))
    \<and> (net_SendMsg net (n_send s0 + n) \<noteq> None
         \<and> net_select net (n_select s0 + n) \<noteq> TimerFired \<longrightarrow>
       doWork net (mq, s) = Some (Inr (mq\<lparr>mq_out := None, mq_sender := None\<rparr>, sc))
       \<and> runQueue net (WorkSignal # DoneSignal # evs) (mq, s) =
           Some (Inr (mq\<lparr>mq_work := False, mq_out := None, mq_sender := None\<rparr>, sc))
       \<and> runQueue net (WorkSignal # CtxDoneSignal # evs) (mq, s) =
           Some (Inr (mq\<lparr>mq_work := False, mq_out := None, mq_sender := None\<rparr>, sc)))
    \<and> (net_SendMsg net (n_send s0 + n) \<noteq> None
         \<and> net_select net (n_select s0 + n) = TimerFired
         \<and> net_ConnectTo net (n_connect s0 + n) \<noteq> None \<longrightarrow>
       doWork net (mq, s) =
         Some (Inr (mq\<lparr>mq_out := None, mq_sender := None\<rparr>,
           sc\<lparr>n_connect := n_connect sc + 1,
              io_trace := io_trace sc @
                [Log Warning ''SendMsg errored but neither done nor context.Done() were set'',
                 ConnectTo (mq_p mq),
                 Log Error ''couldnt open sender again after SendMsg failed'']\<rparr>))
       \<and> runQueue net (WorkSignal # evs) (mq, s) =
           runQueue net evs
             (mq\<lparr>mq_work := False, mq_out := None, mq_sender := None\<rparr>,
              sc\<lparr>n_connect := n_connect sc + 1,
                 io_trace := io_trace sc @
                   [Log Warning ''SendMsg errored but neither done nor context.Done() were set'',
                    ConnectTo (mq_p mq),
                    Log Error ''couldnt open sender again after SendMsg failed'']\<rparr>))
    \<and> (net_SendMsg net (n_send s0 + n) \<noteq> None
         \<and> net_select net (n_select s0 + n) = TimerFired
         \<and> net_ConnectTo net (n_connect s0 + n) = None
         \<and> isl (net_NewMessageSender net (n_newsender s0 + n)) \<longrightarrow>
       doWork net (mq, s) =
         Some (Inr (mq\<lparr>mq_out := None, mq_sender := None\<rparr>,
           sc\<lparr>n_connect := n_connect sc + 1, n_newsender := n_newsender sc + 1,
              io_trace := io_trace sc @
                [Log Warning ''SendMsg errored but neither done nor context.Done() were set'',
                 ConnectTo (mq_p mq), NewMessageSender (mq_p mq),
                 Log Error ''couldnt open sender again after SendMsg failed'']\<rparr>))
       \<and> runQueue net (WorkSignal # evs) (mq, s) =
           runQueue net evs
             (mq\<lparr>mq_work := False, mq_out := None, mq_sender := None\<rparr>,
              sc\<lparr>n_connect := n_connect sc + 1, n_newsender := n_newsender sc + 1,
                 io_trace := io_trace sc @
                   [Log Warning ''SendMsg errored but neither done nor context.Done() were set'',
                    ConnectTo (mq_p mq), NewMessageSender (mq_p mq),
                    Log Error ''couldnt open sender again after SendMsg failed'']\<rparr>))"
proof -
  let ?mq = "mq\<lparr>mq_work := False\<rparr>"
  have out': "mq_out ?mq = Some wlm" using out(1) by simp
  have start': "mq_sender ?mq = Some sd0 \<and> s0 = s
       \<or> mq_sender ?mq = None \<and> net_ConnectTo net (n_connect s) = None
         \<and> net_NewMessageSender net (n_newsender s) = Inr sd0
         \<and> s0 = s\<lparr>n_connect := n_connect s + 1, n_newsender := n_newsender s + 1,
                   io_trace := io_trace s @ [ConnectTo (mq_p ?mq), NewMessageSender (mq_p ?mq)]\<rparr>"
    using start by simp
  have sn': "sn = s0\<lparr>n_send := n_send s0 + n + 1, n_select := n_select s0 + n,
                     n_connect := n_connect s0 + n, n_newsender := n_newsender s0 + n,
                     io_trace := io_trace s0 @ rounds_trace net s0 (mq_p ?mq) sd0 wlm n
                       @ [SendMsg (sender_at net s0 sd0 n) wlm]\<rparr>"
    using sn by simp
  note d = doWork_cycle [OF out start fails sn sc]
  note r = doWork_cycle [OF out' out(2) start' fails sn' sc]
  have p: "mq_p ?mq = mq_p mq" by simp
  have a: "net_SendMsg net (n_send s0 + n) = None \<longrightarrow>
       doWork net (mq, s) =
         Some (Inr (mq\<lparr>mq_out := None, mq_sender := Some (sender_at net s0 sd0 n)\<rparr>, sn))
       \<and> runQueue net (WorkSignal # evs) (mq, s) =
           runQueue net evs
             (mq\<lparr>mq_work := False, mq_out := None, mq_sender := Some (sender_at net s0 sd0 n)\<rparr>, sn)"
    using d(1) r(1) by simp
  have b: "net_SendMsg net (n_send s0 + n) \<noteq> None
         \<and> net_select net (n_select s0 + n) \<noteq> TimerFired \<longrightarrow>
       doWork net (mq, s) = Some (Inr (mq\<lparr>mq_out := None, mq_sender := None\<rparr>, sc))
       \<and> runQueue net (WorkSignal # DoneSignal # evs) (mq, s) =
           Some (Inr (mq\<lparr>mq_work := False, mq_out := None, mq_sender := None\<rparr>, sc))
       \<and> runQueue net (WorkSignal # CtxDoneSignal # evs) (mq, s) =
           Some (Inr (mq\<lparr>mq_work := False, mq_out := None, mq_sender := None\<rparr>, sc))"
    using d(2) r(2) by (simp add: runQueue_exit_def)
  have c: "net_SendMsg net (n_send s0 + n) \<noteq> None
         \<and> net_select net (n_select s0 + n) = TimerFired
         \<and> net_ConnectTo net (n_connect s0 + n) \<noteq> None \<longrightarrow>
       doWork net (mq, s) =
         Some (Inr (mq\<lparr>mq_out := None, mq_sender := None\<rparr>,
           sc\<lparr>n_connect := n_connect sc + 1,
              io_trace := io_trace sc @
                [Log Warning ''SendMsg errored but neither done nor context.Done() were set'',
                 ConnectTo (mq_p mq),
                 Log Error ''couldnt open sender again after SendMsg failed'']\<rparr>))
       \<and> runQueue net (WorkSignal # evs) (mq, s) =
           runQueue net evs
             (mq\<lparr>mq_work := False, mq_out := None, mq_sender := None\<rparr>,
              sc\<lparr>n_connect := n_connect sc + 1,
                 io_trace := io_trace sc @
                   [Log Warning ''SendMsg errored but neither done nor context.Done() were set'',
                    ConnectTo (mq_p mq),
                    Log Error ''couldnt open sender again after SendMsg failed'']\<rparr>)"
    using d(3) r(3) [unfolded p] by simp
  have e: "net_SendMsg net (n_send s0 + n) \<noteq> None
         \<and> net_select net (n_select s0 + n) = TimerFired
         \<and> net_ConnectTo net (n_connect s0 + n) = None
         \<and> isl (net_NewMessageSender net (n_newsender s0 + n)) \<longrightarrow>
       doWork net (mq, s) =
         Some (Inr (mq\<lparr>mq_out := None, mq_sender := None\<rparr>,
           sc\<lparr>n_connect := n_connect sc + 1, n_newsender := n_newsender sc + 1,
              io_trace := io_trace sc @
                [Log Warning ''SendMsg errored but neither done nor context.Done() were set'',
                 ConnectTo (mq_p mq), NewMessageSender (mq_p mq),
                 Log Error ''couldnt open sender again after SendMsg failed'']\<rparr>))
       \<and> runQueue net (WorkSignal # evs) (mq, s) =
           runQueue net evs
             (mq\<lparr>mq_work := False, mq_out := None, mq_sender := None\<rparr>,
              sc\<lparr>n_connect := n_connect sc + 1, n_newsender := n_newsender sc + 1,
                 io_trace := io_trace sc @
                   [Log Warning ''SendMsg errored but neither done nor context.Done() were set'',
                    ConnectTo (mq_p mq), NewMessageSender (mq_p mq),
                    Log Error ''couldnt open sender again after SendMsg failed'']\<rparr>)"
    using d(4) r(4) [unfolded p] by simp
  show ?thesis using a b c e by (intro conjI)
qed

text \<open>
  C1 as stated allows one retry. On a network whose first two transmissions fail and
  whose third succeeds, \<open>doWork\<close> transmits the message three times and delivers it.
\<close>

theorem doWork_third_transmission:
  "net_SendMsg net_fails_twice 0 \<noteq> None \<and> net_SendMsg net_fails_twice 1 \<noteq> None
   \<and> doWork net_fails_twice (mq_ex, io0) =
       Some (Inr (mq_ex\<lparr>mq_out := None, mq_sender := Some 2\<rparr>,
         \<lparr>n_connect = 2, n_newsender = 2, n_send = 3, n_select = 2,
          io_trace =
            [SendMsg 0 msg_ex, Log Info ''bitswap send error'', CloseSender 0,
             Log Warning ''SendMsg errored but neither done nor context.Done() were set'',
             ConnectTo 1, NewMessageSender 1,
             SendMsg 1 msg_ex, Log Info ''bitswap send error'', CloseSender 1,
             Log Warning ''SendMsg errored but neither done nor context.Done() were set'',
             ConnectTo 1, NewMessageSender 1,
             SendMsg 2 msg_ex]\<rparr>))
   \<and> sent_msgs
        [SendMsg 0 msg_ex, Log Info ''bitswap send error'', CloseSender 0,
         Log Warning ''SendMsg errored but neither done nor context.Done() were set'',
         ConnectTo 1, NewMessageSender 1,
         SendMsg 1 msg_ex, Log Info ''bitswap send error'', CloseSender 1,
         Log Warning ''SendMsg errored but neither done nor context.Done() were set'',
         ConnectTo 1, NewMessageSender 1,
         SendMsg 2 msg_ex] = [msg_ex, msg_ex, msg_ex]"
  by (simp add: doWork_def sendLoop.simps openSender_def Let_def net_fails_twice_def mq_ex_def
      msg_ex_def msg_Empty_def io0_def)

theorem doWork_resends_until_sent_or_reopen_fails_witness:
  "fst (startPeerHandler 1
      \<lparr>pm_peers = [], pm_wl = [(5, \<lparr>Cid = 5, Priority = 2147483647, RefCnt = 1\<rparr>)],
       wantlistGauge = 1, pm_trace = []\<rparr>) = Some mq_new
   \<and> doWork net_reopen_fails (mq_new, io0) =
       Some (Inr (mq_new\<lparr>mq_out := None, mq_sender := None\<rparr>,
         \<lparr>n_connect = 3, n_newsender = 2, n_send = 2, n_select = 2,
          io_trace =
            [ConnectTo 1, NewMessageSender 1,
             SendMsg 1 msg_full5, Log Info ''bitswap send error'', CloseSender 1,
             Log Warning ''SendMsg errored but neither done nor context.Done() were set'',
             ConnectTo 1, NewMessageSender 1,
             SendMsg 2 msg_full5, Log Info ''bitswap send error'', CloseSender 2,
             Log Warning ''SendMsg errored but neither done nor context.Done() were set'',
             ConnectTo 1,
             Log Error ''couldnt open sender again after SendMsg failed'']\<rparr>))
   \<and> runQueue net_reopen_fails [WorkSignal, WorkSignal] (mq_new, io0) =
       Some (Inr (mq_new\<lparr>mq_work := False, mq_out := None, mq_sender := None\<rparr>,
         \<lparr>n_connect = 4, n_newsender = 2, n_send = 2, n_select = 2,
          io_trace =
            [ConnectTo 1, NewMessageSender 1,
             SendMsg 1 msg_full5, Log Info ''bitswap send error'', CloseSender 1,
             Log Warning ''SendMsg errored but neither done nor context.Done() were set'',
             ConnectTo 1, NewMessageSender 1,
             SendMsg 2 msg_full5, Log Info ''bitswap send error'', CloseSender 2,
             Log Warning ''SendMsg errored but neither done nor context.Done() were set'',
             ConnectTo 1,
             Log Error ''couldnt open sender again after SendMsg failed'',
             ConnectTo 1,
             Log Info ''cant open message sender to peer'']\<rparr>))"
proof -
  let ?s0 = "io0\<lparr>n_connect := n_connect io0 + 1, n_newsender := n_newsender io0 + 1,
                 io_trace := io_trace io0 @ [ConnectTo (mq_p mq_new), NewMessageSender (mq_p mq_new)]\<rparr>"
  have new: "fst (startPeerHandler 1
      \<lparr>pm_peers = [], pm_wl = [(5, \<lparr>Cid = 5, Priority = 2147483647, RefCnt = 1\<rparr>)],
       wantlistGauge = 1, pm_trace = []\<rparr>) = Some mq_new"
    by (simp add: startPeerHandler_def newMsgQueue_def wl_Entries_def seed_entry_def
        wl_AddEntry_def msg_New_def msg_AddEntry_def mq_new_def Let_def)
  have h1: "mq_out mq_new = Some msg_full5" by (simp add: mq_new_def msg_full5_def)
  have h2: "\<not> msg_Empty msg_full5" by (simp add: msg_Empty_def msg_full5_def)
  have h3: "mq_sender mq_new = Some 1 \<and> ?s0 = io0
       \<or> mq_sender mq_new = None \<and> net_ConnectTo net_reopen_fails (n_connect io0) = None
         \<and> net_NewMessageSender net_reopen_fails (n_newsender io0) = Inr 1
         \<and> ?s0 = io0\<lparr>n_connect := n_connect io0 + 1, n_newsender := n_newsender io0 + 1,
                 io_trace := io_trace io0 @ [ConnectTo (mq_p mq_new), NewMessageSender (mq_p mq_new)]\<rparr>"
    by (simp add: mq_new_def net_reopen_fails_def io0_def)
  have h4: "\<forall>k<1. net_SendMsg net_reopen_fails (n_send ?s0 + k) \<noteq> None
               \<and> retry_ok net_reopen_fails ?s0 k"
    by (simp add: net_reopen_fails_def retry_ok_def io0_def)
  have c: "net_SendMsg net_reopen_fails (n_send ?s0 + 1) \<noteq> None
         \<and> net_select net_reopen_fails (n_select ?s0 + 1) = TimerFired
         \<and> net_ConnectTo net_reopen_fails (n_connect ?s0 + 1) \<noteq> None"
    by (simp add: net_reopen_fails_def io0_def)
  note th = doWork_resends_until_sent_or_reopen_fails [OF h1 h2 h3 h4 refl refl, of "[WorkSignal]",
      THEN conjunct2, THEN conjunct2, THEN conjunct1, rule_format, OF c]
  have d: "doWork net_reopen_fails (mq_new, io0) =
       Some (Inr (mq_new\<lparr>mq_out := None, mq_sender := None\<rparr>,
         \<lparr>n_connect = 3, n_newsender = 2, n_send = 2, n_select = 2,
          io_trace =
            [ConnectTo 1, NewMessageSender 1,
             SendMsg 1 msg_full5, Log Info ''bitswap send error'', CloseSender 1,
             Log Warning ''SendMsg errored but neither done nor context.Done() were set'',
             ConnectTo 1, NewMessageSender 1,
             SendMsg 2 msg_full5, Log Info ''bitswap send error'', CloseSender 2,
             Log Warning ''SendMsg errored but neither done nor context.Done() were set'',
             ConnectTo 1,
             Log Error ''couldnt open sender again after SendMsg failed'']\<rparr>))"
    using th [THEN conjunct1]
    by (simp add: sender_at_def rounds_trace_def retry_round_def net_reopen_fails_def io0_def
        mq_new_def)
  have r: "runQueue net_reopen_fails [WorkSignal, WorkSignal] (mq_new, io0) =
       runQueue net_reopen_fails [WorkSignal]
         (mq_new\<lparr>mq_work := False, mq_out := None, mq_sender := None\<rparr>,
         \<lparr>n_connect = 3, n_newsender = 2, n_send = 2, n_select = 2,
          io_trace =
            [ConnectTo 1, NewMessageSender 1,
             SendMsg 1 msg_full5, Log Info ''bitswap send error'', CloseSender 1,
             Log Warning ''SendMsg errored but neither done nor context.Done() were set'',
             ConnectTo 1, NewMessageSender 1,
             SendMsg 2 msg_full5, Log Info ''bitswap send error'', CloseSender 2,
             Log Warning ''SendMsg errored but neither done nor context.Done() were set'',
             ConnectTo 1,
             Log Error ''couldnt open sender again after SendMsg failed'']\<rparr>)"
    using th [THEN conjunct2]
    by (simp add: sender_at_def rounds_trace_def retry_round_def net_reopen_fails_def io0_def
        mq_new_def numeral_2_eq_2 numeral_3_eq_3 del: runQueue.simps)
  show ?thesis
    unfolding r using new d
    by (simp add: doWork_def openSender_def net_reopen_fails_def mq_new_def Let_def)
qed

section \<open>The periodic rebroadcast\<close>

text \<open>
  The state \<open>pm_flushed\<close> is reached: the batch and the connect event give the queue
  of peer 1 the full list as pending message, and the first run of its pipeline sends it.
\<close>

lemma Run_want5_connect:
  "Run [Incoming want5, Connect 1] NewWantManager =
     pm_flushed\<lparr>pm_peers :=
       [(1, mq_flushed\<lparr>mq_out := Some \<lparr>full = True, msg_wantlist = [(5, 2147483647, False)], msg_blocks = []\<rparr>,
                      mq_sender := None, mq_work := True\<rparr>)]\<rparr>"
  by (simp add: want5_def NewWantManager_def Run_incoming_def Run_broadcast_def Run_apply_entry_def
      addEntries_entries_def mk_entry_def wl_AddEntry_def startPeerHandler_def newMsgQueue_def
      wl_Entries_def seed_entry_def msg_New_def msg_AddEntry_def pm_flushed_def mq_flushed_def Let_def)

lemma first_flush:
  "runQueue net_ok [WorkSignal]
     (mq_flushed\<lparr>mq_out := Some \<lparr>full = True, msg_wantlist = [(5, 2147483647, False)], msg_blocks = []\<rparr>,
                 mq_sender := None, mq_work := True\<rparr>, io0) =
   Some (Inr (mq_flushed,
     \<lparr>n_connect = 1, n_newsender = 1, n_send = 1, n_select = 0,
      io_trace = [ConnectTo 1, NewMessageSender 1,
        SendMsg 0 \<lparr>full = True, msg_wantlist = [(5, 2147483647, False)], msg_blocks = []\<rparr>]\<rparr>))"
  by (simp add: doWork_def sendLoop.simps openSender_def Let_def net_ok_def mq_flushed_def
      msg_Empty_def io0_def)

text \<open>
  C2 fails on the code. After the timer fires in the state \<open>pm_flushed\<close>, the want
  list still has the id 5, but the pending message of peer 1 is the empty full message:
  the mirror was not reset, \<open>Add\<close> found the id in it (and counted it a second
  time), no work is signalled, and a run of \<open>doWork\<close> sends nothing. When the timer
  fires before the first flush, the full list that was pending is replaced by the empty
  full message as well, and the pipeline opens a sender and sends nothing.
\<close>

theorem Run_tock_suppresses_mirrored_entries:
  "wl_Entries (pm_wl (Run_iter Tock pm_flushed)) = [\<lparr>Cid = 5, Priority = 2147483647, RefCnt = 1\<rparr>]
   \<and> map_of (pm_peers (Run_iter Tock pm_flushed)) 1 =
       Some (mq_flushed\<lparr>mq_out := Some \<lparr>full = True, msg_wantlist = [], msg_blocks = []\<rparr>,
                         mq_wl := [(5, \<lparr>Cid = 5, Priority = 2147483647, RefCnt = 2\<rparr>)]\<rparr>)
   \<and> \<not> mq_work (mq_flushed\<lparr>mq_out := Some \<lparr>full = True, msg_wantlist = [], msg_blocks = []\<rparr>,
                         mq_wl := [(5, \<lparr>Cid = 5, Priority = 2147483647, RefCnt = 2\<rparr>)]\<rparr>)
   \<and> doWork net_ok
        (mq_flushed\<lparr>mq_out := Some \<lparr>full = True, msg_wantlist = [], msg_blocks = []\<rparr>,
                    mq_wl := [(5, \<lparr>Cid = 5, Priority = 2147483647, RefCnt = 2\<rparr>)]\<rparr>, io0)
       = Some (Inr (mq_flushed\<lparr>mq_out := Some \<lparr>full = True, msg_wantlist = [], msg_blocks = []\<rparr>,
                    mq_wl := [(5, \<lparr>Cid = 5, Priority = 2147483647, RefCnt = 2\<rparr>)]\<rparr>, io0))
   \<and> map_of (pm_peers (Run [Incoming want5, Connect 1, Tock] NewWantManager)) 1 =
       Some (mq_flushed\<lparr>mq_out := Some \<lparr>full = True, msg_wantlist = [], msg_blocks = []\<rparr>,
                         mq_wl := [(5, \<lparr>Cid = 5, Priority = 2147483647, RefCnt = 2\<rparr>)],
                         mq_sender := None, mq_work := True\<rparr>)
   \<and> runQueue net_ok [WorkSignal]
        (mq_flushed\<lparr>mq_out := Some \<lparr>full = True, msg_wantlist = [], msg_blocks = []\<rparr>,
                    mq_wl := [(5, \<lparr>Cid = 5, Priority = 2147483647, RefCnt = 2\<rparr>)],
                    mq_sender := None, mq_work := True\<rparr>, io0)
       = Some (Inr (mq_flushed\<lparr>mq_out := Some \<lparr>full = True, msg_wantlist = [], msg_blocks = []\<rparr>,
                    mq_wl := [(5, \<lparr>Cid = 5, Priority = 2147483647, RefCnt = 2\<rparr>)]\<rparr>,
                io0\<lparr>n_connect := 1, n_newsender := 1,
                    io_trace := [ConnectTo 1, NewMessageSender 1]\<rparr>))"
proof -
  have tock: "Run_iter Tock pm_flushed =
      pm_flushed\<lparr>pm_peers :=
        [(1, mq_flushed\<lparr>mq_out := Some \<lparr>full = True, msg_wantlist = [], msg_blocks = []\<rparr>,
                       mq_wl := [(5, \<lparr>Cid = 5, Priority = 2147483647, RefCnt = 2\<rparr>)]\<rparr>)]\<rparr>"
    by (simp add: Run_tock_def pm_flushed_def mq_flushed_def wl_Entries_def addMessage_def
        addMessage_entry_def wl_Add_def msg_New_def Let_def)
  have a: "wl_Entries (pm_wl (Run_iter Tock pm_flushed)) = [\<lparr>Cid = 5, Priority = 2147483647, RefCnt = 1\<rparr>]"
    unfolding tock by (simp add: pm_flushed_def wl_Entries_def)
  have b: "map_of (pm_peers (Run_iter Tock pm_flushed)) 1 =
       Some (mq_flushed\<lparr>mq_out := Some \<lparr>full = True, msg_wantlist = [], msg_blocks = []\<rparr>,
                         mq_wl := [(5, \<lparr>Cid = 5, Priority = 2147483647, RefCnt = 2\<rparr>)]\<rparr>)"
    unfolding tock by simp
  have c: "\<not> mq_work (mq_flushed\<lparr>mq_out := Some \<lparr>full = True, msg_wantlist = [], msg_blocks = []\<rparr>,
                         mq_wl := [(5, \<lparr>Cid = 5, Priority = 2147483647, RefCnt = 2\<rparr>)]\<rparr>)"
    by (simp add: mq_flushed_def)
  have d: "doWork net_ok
        (mq_flushed\<lparr>mq_out := Some \<lparr>full = True, msg_wantlist = [], msg_blocks = []\<rparr>,
                    mq_wl := [(5, \<lparr>Cid = 5, Priority = 2147483647, RefCnt = 2\<rparr>)]\<rparr>, io0)
       = Some (Inr (mq_flushed\<lparr>mq_out := Some \<lparr>full = True, msg_wantlist = [], msg_blocks = []\<rparr>,
                    mq_wl := [(5, \<lparr>Cid = 5, Priority = 2147483647, RefCnt = 2\<rparr>)]\<rparr>, io0))"
    by (simp add: doWork_def mq_flushed_def msg_Empty_def)
  have e: "map_of (pm_peers (Run [Incoming want5, Connect 1, Tock] NewWantManager)) 1 =
       Some (mq_flushed\<lparr>mq_out := Some \<lparr>full = True, msg_wantlist = [], msg_blocks = []\<rparr>,
                         mq_wl := [(5, \<lparr>Cid = 5, Priority = 2147483647, RefCnt = 2\<rparr>)],
                         mq_sender := None, mq_work := True\<rparr>)"
  proof -
    have "Run [Incoming want5, Connect 1, Tock] NewWantManager =
        Run_iter Tock (Run [Incoming want5, Connect 1] NewWantManager)"
      by simp
    then show ?thesis
      unfolding Run_want5_connect
      by (simp add: Run_tock_def pm_flushed_def mq_flushed_def wl_Entries_def addMessage_def
        addMessage_entry_def wl_Add_def msg_New_def Let_def)
  qed
  have f: "runQueue net_ok [WorkSignal]
        (mq_flushed\<lparr>mq_out := Some \<lparr>full = True, msg_wantlist = [], msg_blocks = []\<rparr>,
                    mq_wl := [(5, \<lparr>Cid = 5, Priority = 2147483647, RefCnt = 2\<rparr>)],
                    mq_sender := None, mq_work := True\<rparr>, io0)
       = Some (Inr (mq_flushed\<lparr>mq_out := Some \<lparr>full = True, msg_wantlist = [], msg_blocks = []\<rparr>,
                    mq_wl := [(5, \<lparr>Cid = 5, Priority = 2147483647, RefCnt = 2\<rparr>)]\<rparr>,
                io0\<lparr>n_connect := 1, n_newsender := 1,
                    io_trace := [ConnectTo 1, NewMessageSender 1]\<rparr>))"
    by (simp add: doWork_def openSender_def Let_def net_ok_def mq_flushed_def msg_Empty_def io0_def)
  show ?thesis using a b c d e f by (intro conjI)
qed

section \<open>The producers and the shutdown\<close>

lemma select_case_None: "(select_case rs c = None) = (\<forall>i<length rs. \<not> rs ! i)"
  by (auto simp: select_case_def Let_def filter_empty_conv)

lemma select_case_Some: "select_case rs c = Some n \<Longrightarrow> n < length rs \<and> rs ! n"
proof -
  assume a: "select_case rs c = Some n"
  let ?is = "filter (\<lambda>i. rs ! i) [0..<length rs]"
  have ne: "?is \<noteq> []" using a by (auto simp: select_case_def Let_def split: if_splits)
  have "n = ?is ! (c mod length ?is)" using a ne by (auto simp: select_case_def Let_def)
  moreover have "c mod length ?is < length ?is" using ne by simp
  ultimately have "n \<in> set ?is" using nth_mem by metis
  then show ?thesis by simp
qed

text \<open>
  C9 fails on the code for \<open>ConnectedPeers\<close>. Once \<open>pm.ctx\<close> is cancelled,
  \<open>Connected\<close>, \<open>Disconnected\<close>, \<open>WantBlocks\<close> and \<open>CancelWants\<close> return,
  whatever the channels and the scheduler do; \<open>ConnectedPeers\<close> does not look at the
  context and never returns when the loop is no longer there to receive its request.
\<close>

theorem ConnectedPeers_ignores_shutdown:
  "ConnectedPeers (ch\<lparr>peerReqs_ready := False, pm_ctx_done := True\<rparr>) pm = None
   \<and> Connected (ch\<lparr>pm_ctx_done := True\<rparr>) choice pid \<noteq> None
   \<and> Disconnected (ch\<lparr>pm_ctx_done := True\<rparr>) choice pid \<noteq> None
   \<and> snd (WantBlocks kMaxPriority (ch\<lparr>pm_ctx_done := True\<rparr>) choice ctx_done ks) \<noteq> None
   \<and> CancelWants kMaxPriority (ch\<lparr>pm_ctx_done := True\<rparr>) choice ks \<noteq> None"
proof -
  have two: "\<And>a. select_case [a, True] choice \<noteq> None"
    by (simp add: select_case_None) (metis One_nat_def lessI nth_Cons_0 nth_Cons_Suc numeral_2_eq_2)
  have three: "\<And>a b. select_case [a, True, b] choice \<noteq> None"
  proof -
    fix a b
    have "(1::nat) < length [a, True, b] \<and> [a, True, b] ! 1" by simp
    then show "select_case [a, True, b] choice \<noteq> None" unfolding select_case_None by blast
  qed
  have a: "ConnectedPeers (ch\<lparr>peerReqs_ready := False, pm_ctx_done := True\<rparr>) pm = None"
    by (simp add: ConnectedPeers_def)
  have b: "Connected (ch\<lparr>pm_ctx_done := True\<rparr>) choice pid \<noteq> None"
    using two [of "connect_ready ch"] by (auto simp: Connected_def split: option.splits)
  have c: "Disconnected (ch\<lparr>pm_ctx_done := True\<rparr>) choice pid \<noteq> None"
    using two [of "disconnect_ready ch"] by (auto simp: Disconnected_def split: option.splits)
  have d: "snd (WantBlocks kMaxPriority (ch\<lparr>pm_ctx_done := True\<rparr>) choice ctx_done ks) \<noteq> None"
    using three [of "incoming_ready ch" ctx_done]
    by (auto simp: WantBlocks_def addEntries_def Let_def split: option.splits)
  have e: "CancelWants kMaxPriority (ch\<lparr>pm_ctx_done := True\<rparr>) choice ks \<noteq> None"
    using three [of "incoming_ready ch" False]
    by (auto simp: CancelWants_def addEntries_def Let_def split: option.splits)
  show ?thesis using a b c d e by (intro conjI)
qed

lemma select_case_only_last: "select_case [False, False, True] c = Some 2"
proof -
  have "[0..<length [False, False, True]] = [0, 1, 2]" by (simp add: upt_rec)
  then show ?thesis by (simp add: select_case_def)
qed

lemma select_case_background:
  "select_case [a, b, False] c = Some n \<Longrightarrow> (n = 0 \<and> a) \<or> (n = 1 \<and> b)"
proof -
  assume s: "select_case [a, b, False] c = Some n"
  have n: "n < 3" and r: "[a, b, False] ! n" using select_case_Some [OF s] by simp_all
  from n consider "n = 0" | "n = 1" | "n = 2" by linarith
  then show ?thesis using r by cases simp_all
qed

text \<open>
  C10. \<open>CancelWants\<close> never ends because of a caller's context: it blocks exactly
  while the queue \<open>incoming\<close> takes nothing and the coordinator is not shut down,
  it delivers the cancel batch only when the queue takes it, and it gives up only on the
  coordinator's shutdown. In the state where it blocks, \<open>WantBlocks\<close> with a caller's
  context that is done returns.
\<close>

theorem CancelWants_waits_for_queue_or_shutdown:
  "CancelWants kMaxPriority ch choice ks \<noteq> Some CallerDone
   \<and> (CancelWants kMaxPriority ch choice ks = None) = (\<not> incoming_ready ch \<and> \<not> pm_ctx_done ch)
   \<and> (CancelWants kMaxPriority ch choice ks = Some (Delivered ws) \<longrightarrow>
        incoming_ready ch \<and> ws = \<lparr>entries = addEntries_entries kMaxPriority ks True, targets = []\<rparr>)
   \<and> (CancelWants kMaxPriority ch choice ks = Some Shutdown \<longrightarrow> pm_ctx_done ch)
   \<and> (\<not> incoming_ready ch \<and> \<not> pm_ctx_done ch \<longrightarrow>
        snd (WantBlocks kMaxPriority ch choice True ks) = Some CallerDone)"
proof -
  let ?sel = "select_case [incoming_ready ch, pm_ctx_done ch, False] choice"
  have none: "(?sel = None) = (\<not> incoming_ready ch \<and> \<not> pm_ctx_done ch)"
    unfolding select_case_None by (auto simp: less_Suc_eq nth_Cons' numeral_3_eq_3)
  have a: "CancelWants kMaxPriority ch choice ks \<noteq> Some CallerDone"
    using select_case_background [of "incoming_ready ch" "pm_ctx_done ch" choice]
    by (auto simp: CancelWants_def addEntries_def Let_def split: option.splits)
  have b: "(CancelWants kMaxPriority ch choice ks = None) = (\<not> incoming_ready ch \<and> \<not> pm_ctx_done ch)"
    using none by (auto simp: CancelWants_def addEntries_def Let_def split: option.splits)
  have c: "CancelWants kMaxPriority ch choice ks = Some (Delivered ws) \<longrightarrow>
        incoming_ready ch \<and> ws = \<lparr>entries = addEntries_entries kMaxPriority ks True, targets = []\<rparr>"
    using select_case_background [of "incoming_ready ch" "pm_ctx_done ch" choice]
    by (auto simp: CancelWants_def addEntries_def Let_def split: option.splits if_splits)
  have d: "CancelWants kMaxPriority ch choice ks = Some Shutdown \<longrightarrow> pm_ctx_done ch"
    using select_case_background [of "incoming_ready ch" "pm_ctx_done ch" choice]
    by (auto simp: CancelWants_def addEntries_def Let_def split: option.splits if_splits)
  have e: "\<not> incoming_ready ch \<and> \<not> pm_ctx_done ch \<longrightarrow>
        snd (WantBlocks kMaxPriority ch choice True ks) = Some CallerDone"
    by (simp add: WantBlocks_def addEntries_def Let_def select_case_only_last)
  show ?thesis using a b c d e by (intro conjI)
qed

theorem CancelWants_waits_for_queue_or_shutdown_witness:
  "CancelWants 2147483647 ch_busy 0 [5] = None
   \<and> snd (WantBlocks 2147483647 ch_busy 0 True [5]) = Some CallerDone
   \<and> CancelWants 2147483647 (ch_busy\<lparr>pm_ctx_done := True\<rparr>) 0 [5] = Some Shutdown
   \<and> CancelWants 2147483647 (ch_busy\<lparr>incoming_ready := True\<rparr>) 0 [5]
       = Some (Delivered \<lparr>entries = [\<lparr>Cancel = True, Entry = \<lparr>Cid = 5, Priority = 2147483647, RefCnt = 1\<rparr>\<rparr>],
                          targets = []\<rparr>)"
proof -
  have h: "\<not> incoming_ready ch_busy \<and> \<not> pm_ctx_done ch_busy" by (simp add: ch_busy_def)
  have up: "[0..<length [False, True, False]] = [0, 1, 2]" by (simp add: upt_rec)
  have c: "CancelWants 2147483647 (ch_busy\<lparr>pm_ctx_done := True\<rparr>) 0 [5] = Some Shutdown"
    using up by (simp add: CancelWants_def addEntries_def ch_busy_def select_case_def)
  have d: "CancelWants 2147483647 (ch_busy\<lparr>incoming_ready := True\<rparr>) 0 [5]
       = Some (Delivered \<lparr>entries = [\<lparr>Cancel = True, Entry = \<lparr>Cid = 5, Priority = 2147483647, RefCnt = 1\<rparr>\<rparr>],
                          targets = []\<rparr>)"
    using up by (simp add: CancelWants_def addEntries_def ch_busy_def select_case_def
        addEntries_entries_def mk_entry_def)
  show ?thesis
    using CancelWants_waits_for_queue_or_shutdown [of 2147483647 ch_busy 0 "[5]"] h c d by simp
qed

end
